theory Spec2Isabelle
  imports Complex_Main
begin

section \<open>JavaScript numbers\<close>

text \<open>
  The engine (\<^verbatim>\<open>motorPhysics.js\<close>) computes on JavaScript numbers and guards many
  results with \<^verbatim>\<open>isFinite\<close>, \<^verbatim>\<open>isNaN\<close> and truthiness tests. The model keeps
  every special value of an IEEE-754 double apart: a finite value \<open>Fin r\<close> (\<open>Fin 0\<close> is
  the positive zero), the negative zero, the two infinities and NaN. Finite arithmetic
  is exact real arithmetic: rounding, overflow and underflow of doubles are not
  modelled. The special values follow IEEE-754 and the ECMAScript definitions of the
  operators and of \<^verbatim>\<open>Math.max\<close>, \<^verbatim>\<open>Math.min\<close>, \<^verbatim>\<open>Math.abs\<close>,
  \<^verbatim>\<open>Math.pow\<close> and \<^verbatim>\<open>Math.sqrt\<close>.
\<close>

datatype jsnum = Fin real | NegZero | PosInf | NegInf | NaN

fun isNaN :: "jsnum \<Rightarrow> bool" where
  "isNaN NaN = True"
| "isNaN _ = False"

fun isFinite :: "jsnum \<Rightarrow> bool" where
  "isFinite (Fin _) = True"
| "isFinite NegZero = True"
| "isFinite _ = False"

fun is_zero :: "jsnum \<Rightarrow> bool" where
  "is_zero (Fin r) = (r = 0)"
| "is_zero NegZero = True"
| "is_zero _ = False"

fun is_inf :: "jsnum \<Rightarrow> bool" where
  "is_inf PosInf = True"
| "is_inf NegInf = True"
| "is_inf _ = False"

text \<open>The sign bit: set for negative values, the negative zero and minus infinity.\<close>

fun sign_bit :: "jsnum \<Rightarrow> bool" where
  "sign_bit (Fin r) = (r < 0)"
| "sign_bit NegZero = True"
| "sign_bit NegInf = True"
| "sign_bit _ = False"

text \<open>The real value of a finite number (both zeros are 0).\<close>

fun val :: "jsnum \<Rightarrow> real" where
  "val (Fin r) = r"
| "val _ = 0"

definition mk_zero :: "bool \<Rightarrow> jsnum" where
  "mk_zero neg = (if neg then NegZero else Fin 0)"

definition mk_inf :: "bool \<Rightarrow> jsnum" where
  "mk_inf neg = (if neg then NegInf else PosInf)"

text \<open>Truthiness of a number: \<^verbatim>\<open>0\<close>, \<^verbatim>\<open>-0\<close> and \<^verbatim>\<open>NaN\<close> are falsy.\<close>

definition truthy :: "jsnum \<Rightarrow> bool" where
  "truthy x = (\<not> isNaN x \<and> \<not> is_zero x)"

text \<open>\<^verbatim>\<open>a || b\<close> on numbers.\<close>

definition js_or :: "jsnum \<Rightarrow> jsnum \<Rightarrow> jsnum" where
  "js_or a b = (if truthy a then a else b)"

fun js_neg :: "jsnum \<Rightarrow> jsnum" where
  "js_neg (Fin r) = (if r = 0 then NegZero else Fin (- r))"
| "js_neg NegZero = Fin 0"
| "js_neg PosInf = NegInf"
| "js_neg NegInf = PosInf"
| "js_neg NaN = NaN"

fun js_add :: "jsnum \<Rightarrow> jsnum \<Rightarrow> jsnum" where
  "js_add NaN _ = NaN"
| "js_add _ NaN = NaN"
| "js_add PosInf NegInf = NaN"
| "js_add NegInf PosInf = NaN"
| "js_add PosInf _ = PosInf"
| "js_add _ PosInf = PosInf"
| "js_add NegInf _ = NegInf"
| "js_add _ NegInf = NegInf"
| "js_add NegZero NegZero = NegZero"
| "js_add NegZero (Fin b) = Fin b"
| "js_add (Fin a) NegZero = Fin a"
| "js_add (Fin a) (Fin b) = Fin (a + b)"

definition js_mul :: "jsnum \<Rightarrow> jsnum \<Rightarrow> jsnum" where
  "js_mul x y =
     (if isNaN x \<or> isNaN y then NaN
      else if (is_inf x \<and> is_zero y) \<or> (is_zero x \<and> is_inf y) then NaN
      else if is_inf x \<or> is_inf y then mk_inf (sign_bit x \<noteq> sign_bit y)
      else if is_zero x \<or> is_zero y then mk_zero (sign_bit x \<noteq> sign_bit y)
      else Fin (val x * val y))"

definition js_div :: "jsnum \<Rightarrow> jsnum \<Rightarrow> jsnum" where
  "js_div x y =
     (if isNaN x \<or> isNaN y then NaN
      else if (is_inf x \<and> is_inf y) \<or> (is_zero x \<and> is_zero y) then NaN
      else if is_inf x \<or> is_zero y then mk_inf (sign_bit x \<noteq> sign_bit y)
      else if is_zero x \<or> is_inf y then mk_zero (sign_bit x \<noteq> sign_bit y)
      else Fin (val x / val y))"

text \<open>The relational operators: every comparison with NaN is false, the zeros are equal.\<close>

fun js_lt :: "jsnum \<Rightarrow> jsnum \<Rightarrow> bool" where
  "js_lt NaN _ = False"
| "js_lt _ NaN = False"
| "js_lt _ NegInf = False"
| "js_lt NegInf _ = True"
| "js_lt PosInf _ = False"
| "js_lt _ PosInf = True"
| "js_lt x y = (val x < val y)"

fun js_le :: "jsnum \<Rightarrow> jsnum \<Rightarrow> bool" where
  "js_le NaN _ = False"
| "js_le _ NaN = False"
| "js_le NegInf _ = True"
| "js_le _ NegInf = False"
| "js_le _ PosInf = True"
| "js_le PosInf _ = False"
| "js_le x y = (val x \<le> val y)"

text \<open>
  The operators are written \<open>+\<close>, \<open>-\<close>, \<open>*\<close>, \<open>/\<close>, \<open><\<close> and \<open>\<le>\<close> on \<open>jsnum\<close>, so
  that the formulas below read as in the source. These are the syntactic classes only:
  no algebraic law is assumed for them.
\<close>

instantiation jsnum :: "{plus, minus, uminus, times, inverse, ord}"
begin

definition plus_jsnum :: "jsnum \<Rightarrow> jsnum \<Rightarrow> jsnum" where
  "plus_jsnum x y = js_add x y"

definition uminus_jsnum :: "jsnum \<Rightarrow> jsnum" where
  "uminus_jsnum x = js_neg x"

definition minus_jsnum :: "jsnum \<Rightarrow> jsnum \<Rightarrow> jsnum" where
  "minus_jsnum x y = js_add x (js_neg y)"

definition times_jsnum :: "jsnum \<Rightarrow> jsnum \<Rightarrow> jsnum" where
  "times_jsnum x y = js_mul x y"

definition divide_jsnum :: "jsnum \<Rightarrow> jsnum \<Rightarrow> jsnum" where
  "divide_jsnum x y = js_div x y"

definition inverse_jsnum :: "jsnum \<Rightarrow> jsnum" where
  "inverse_jsnum x = js_div (Fin 1) x"

definition less_jsnum :: "jsnum \<Rightarrow> jsnum \<Rightarrow> bool" where
  "less_jsnum x y = js_lt x y"

definition less_eq_jsnum :: "jsnum \<Rightarrow> jsnum \<Rightarrow> bool" where
  "less_eq_jsnum x y = js_le x y"

instance ..

end

text \<open>\<^verbatim>\<open>Math.max\<close> and \<^verbatim>\<open>Math.min\<close> of two numbers: NaN if either is NaN, and
  \<open>+0\<close> counts as larger than \<open>-0\<close>.\<close>

definition Math_max :: "jsnum \<Rightarrow> jsnum \<Rightarrow> jsnum" where
  "Math_max x y =
     (if isNaN x \<or> isNaN y then NaN
      else if x < y then y
      else if y < x then x
      else if x = NegZero then y else x)"

definition Math_min :: "jsnum \<Rightarrow> jsnum \<Rightarrow> jsnum" where
  "Math_min x y =
     (if isNaN x \<or> isNaN y then NaN
      else if x < y then x
      else if y < x then y
      else if y = NegZero then y else x)"

fun Math_abs :: "jsnum \<Rightarrow> jsnum" where
  "Math_abs (Fin r) = Fin \<bar>r\<bar>"
| "Math_abs NegZero = Fin 0"
| "Math_abs PosInf = PosInf"
| "Math_abs NegInf = PosInf"
| "Math_abs NaN = NaN"

fun Math_sqrt :: "jsnum \<Rightarrow> jsnum" where
  "Math_sqrt (Fin r) = (if r < 0 then NaN else Fin (sqrt r))"
| "Math_sqrt NegZero = NegZero"
| "Math_sqrt PosInf = PosInf"
| "Math_sqrt NegInf = NaN"
| "Math_sqrt NaN = NaN"

fun is_integral :: "jsnum \<Rightarrow> bool" where
  "is_integral (Fin r) = (r = of_int \<lfloor>r\<rfloor>)"
| "is_integral NegZero = True"
| "is_integral _ = False"

fun is_odd_integer :: "jsnum \<Rightarrow> bool" where
  "is_odd_integer (Fin r) = (r = of_int \<lfloor>r\<rfloor> \<and> odd \<lfloor>r\<rfloor>)"
| "is_odd_integer _ = False"

text \<open>
  \<^verbatim>\<open>Math.pow(base, exponent)\<close>, in the order of the cases of ECMAScript's
  \<^verbatim>\<open>Number::exponentiate\<close>. The last two cases are the mathematical power of a
  finite non-zero base to a finite non-zero exponent.
\<close>

definition Math_pow :: "jsnum \<Rightarrow> jsnum \<Rightarrow> jsnum" where
  "Math_pow base exponent =
     (if isNaN exponent then NaN
      else if is_zero exponent then Fin 1
      else if isNaN base then NaN
      else if base = PosInf then (if Fin 0 < exponent then PosInf else Fin 0)
      else if base = NegInf then
        (if Fin 0 < exponent then (if is_odd_integer exponent then NegInf else PosInf)
         else (if is_odd_integer exponent then NegZero else Fin 0))
      else if base = Fin 0 then (if Fin 0 < exponent then Fin 0 else PosInf)
      else if base = NegZero then
        (if Fin 0 < exponent then (if is_odd_integer exponent then NegZero else Fin 0)
         else (if is_odd_integer exponent then NegInf else PosInf))
      else if exponent = PosInf then
        (if 1 < \<bar>val base\<bar> then PosInf else if \<bar>val base\<bar> = 1 then NaN else Fin 0)
      else if exponent = NegInf then
        (if 1 < \<bar>val base\<bar> then Fin 0 else if \<bar>val base\<bar> = 1 then NaN else PosInf)
      else if val base < 0 then
        (if \<not> is_integral exponent then NaN
         else if is_odd_integer exponent then Fin (- (\<bar>val base\<bar> powr val exponent))
         else Fin (\<bar>val base\<bar> powr val exponent))
      else Fin (val base powr val exponent))"

section \<open>Catalogs and configuration\<close>

text \<open>\<^verbatim>\<open>CONSTANTS.ATMOSPHERIC_PRESSURE\<close> and \<^verbatim>\<open>CONSTANTS.GRAVITY\<close>.\<close>

definition ATMOSPHERIC_PRESSURE :: jsnum where
  "ATMOSPHERIC_PRESSURE = Fin 101325"

definition GRAVITY :: jsnum where
  "GRAVITY = Fin 9.81"

definition Math_PI :: jsnum where
  "Math_PI = Fin pi"

record propellant =
  name :: string
  density :: jsnum
  burnRateCoeff :: jsnum
  burnRateExponent :: jsnum
  referencePressure :: jsnum
  characteristicVelocity :: jsnum
  gamma :: jsnum
  combustionTemp :: jsnum
  molecularMass :: jsnum

text \<open>The fields \<^verbatim>\<open>name\<close> and \<^verbatim>\<open>density\<close> of a material are \<open>mat_name\<close> and
  \<open>mat_density\<close> here (a propellant has fields of the same names).\<close>

record material =
  mat_name :: string
  mat_density :: jsnum
  yieldStrength :: jsnum
  ultimateStrength :: jsnum
  thermalConductivity :: jsnum
  color :: string

text \<open>\<^verbatim>\<open>grainConfig.type\<close> is \<open>grainType\<close>, \<^verbatim>\<open>grainConfig.length\<close> is \<open>grainLength\<close>.\<close>

record grainConfig =
  grainType :: string
  outerRadius :: jsnum
  coreRadius :: jsnum
  grainLength :: jsnum
  segments :: jsnum
  starPoints :: jsnum
  starInnerRadius :: jsnum

record nozzle =
  throatDiameter :: jsnum
  exitDiameter :: jsnum
  efficiency :: jsnum

record casing =
  innerRadius :: jsnum
  wallThickness :: jsnum

record config =
  propellant :: propellant
  material :: material
  grainConfig :: grainConfig
  nozzle :: nozzle
  casing :: casing

definition KNSB :: propellant where
  "KNSB = \<lparr> name = ''KNSB (KNO3/Sorbitol 65/35)'', density = Fin 1841,
     burnRateCoeff = Fin 8.26, burnRateExponent = Fin 0.319, referencePressure = Fin 6.895,
     characteristicVelocity = Fin 885, gamma = Fin 1.133, combustionTemp = Fin 1600,
     molecularMass = Fin 39.9 \<rparr>"

definition KNSU :: propellant where
  "KNSU = \<lparr> name = ''KNSU (KNO3/Sucrose 65/35)'', density = Fin 1889,
     burnRateCoeff = Fin 8.26, burnRateExponent = Fin 0.319, referencePressure = Fin 6.895,
     characteristicVelocity = Fin 914, gamma = Fin 1.133, combustionTemp = Fin 1720,
     molecularMass = Fin 42.0 \<rparr>"

definition KNDX :: propellant where
  "KNDX = \<lparr> name = ''KNDX (KNO3/Dextrose 65/35)'', density = Fin 1879,
     burnRateCoeff = Fin 8.87, burnRateExponent = Fin 0.326, referencePressure = Fin 6.895,
     characteristicVelocity = Fin 889, gamma = Fin 1.131, combustionTemp = Fin 1710,
     molecularMass = Fin 42.4 \<rparr>"

definition APCP :: propellant where
  "APCP = \<lparr> name = ''APCP (70% AP Composite)'', density = Fin 1772,
     burnRateCoeff = Fin 3.517, burnRateExponent = Fin 0.395, referencePressure = Fin 6.895,
     characteristicVelocity = Fin 1550, gamma = Fin 1.25, combustionTemp = Fin 3000,
     molecularMass = Fin 26.0 \<rparr>"

definition ALUMINUM :: material where
  "ALUMINUM = \<lparr> mat_name = ''Aluminum 6061-T6'', mat_density = Fin 2700,
     yieldStrength = Fin 276000000, ultimateStrength = Fin 310000000,
     thermalConductivity = Fin 167, color = ''#A8A8A8'' \<rparr>"

definition STEEL :: material where
  "STEEL = \<lparr> mat_name = ''Steel 4130'', mat_density = Fin 7850,
     yieldStrength = Fin 435000000, ultimateStrength = Fin 560000000,
     thermalConductivity = Fin 42, color = ''#606060'' \<rparr>"

definition PVC :: material where
  "PVC = \<lparr> mat_name = ''PVC Schedule 40'', mat_density = Fin 1400,
     yieldStrength = Fin 52000000, ultimateStrength = Fin 52000000,
     thermalConductivity = Fin 0.19, color = ''#E8E8E8'' \<rparr>"

definition COMPOSITE :: material where
  "COMPOSITE = \<lparr> mat_name = ''Carbon Fiber Composite'', mat_density = Fin 1600,
     yieldStrength = Fin 600000000, ultimateStrength = Fin 800000000,
     thermalConductivity = Fin 5, color = ''#2D2D2D'' \<rparr>"

text \<open>\<^verbatim>\<open>GRAIN_TYPES\<close>: the grain type is a string, compared by the \<^verbatim>\<open>switch\<close>.\<close>

definition BATES :: string where "BATES = ''bates''"
definition STAR :: string where "STAR = ''star''"
definition CYLINDRICAL :: string where "CYLINDRICAL = ''cylindrical''"
definition FINOCYL :: string where "FINOCYL = ''finocyl''"

section \<open>The physics functions\<close>

definition calculateBurningArea :: "grainConfig \<Rightarrow> jsnum \<Rightarrow> jsnum" where
  "calculateBurningArea g currentInnerRadius' =
     (let r = Math_min (Math_max currentInnerRadius' (Fin 0.001)) (outerRadius g * Fin 0.99);
          N = js_or (segments g) (Fin 1);
          L = js_or (grainLength g) (Fin 0.1);
          R = js_or (outerRadius g) (Fin 0.038)
      in if grainType g = BATES then
           (let coreArea = N * Fin 2 * Math_PI * r * L;
                endInhibition = Fin 0.3;
                endArea = N * Fin 2 * Math_PI * (R * R - r * r) * endInhibition
            in coreArea + endArea)
         else if grainType g = CYLINDRICAL then N * Fin 2 * Math_PI * r * L
         else if grainType g = STAR then
           (let starMultiplier = Fin 2.5 in N * Fin 2 * Math_PI * r * L * starMultiplier)
         else N * Fin 2 * Math_PI * r * L)"

definition calculateBurnRate :: "jsnum \<Rightarrow> propellant \<Rightarrow> jsnum" where
  "calculateBurnRate pressure p =
     (let P_MPa = Math_max (pressure / Fin 1000000) (Fin 0.1);
          Pref = js_or (referencePressure p) (Fin 6.895);
          rate_mm_s = burnRateCoeff p * Math_pow (P_MPa / Pref) (burnRateExponent p);
          rate_m_s = rate_mm_s / Fin 1000
      in if \<not> isFinite rate_m_s \<or> isNaN rate_m_s then Fin 0
         else Math_max (Fin 0) (Math_min rate_m_s (Fin 0.030)))"

definition calculateThroatArea :: "jsnum \<Rightarrow> jsnum" where
  "calculateThroatArea throatDiameter' =
     (let r = throatDiameter' / Fin 2 in Math_PI * r * r)"

text \<open>
  The \<^verbatim>\<open>for\<close> loop of \<^verbatim>\<open>calculateChamberPressure\<close>: \<open>i\<close> is the loop counter and
  \<open>Pc\<close> the current estimate. The result is the final \<open>Pc\<close> together with the number of
  times the loop body was run (the \<^verbatim>\<open>break\<close> leaves \<open>Pc\<close> as it is).
\<close>

function pressure_loop ::
  "jsnum \<Rightarrow> jsnum \<Rightarrow> jsnum \<Rightarrow> jsnum \<Rightarrow> jsnum \<Rightarrow> jsnum \<Rightarrow> jsnum \<Rightarrow> nat \<Rightarrow> jsnum \<Rightarrow> jsnum \<times> nat" where
  "pressure_loop rho a_m_s n Pref cStar burningArea' throatArea i Pc =
     (if i < 20 then
        (let r = a_m_s * Math_pow (Pc / Pref) n;
             mdot_gen = rho * r * burningArea';
             mdot_out = Pc * throatArea / cStar;
             Pc_new = mdot_gen * cStar / throatArea
         in if Math_abs (Pc_new - Pc) < Fin 1000 then (Pc, Suc i)
            else pressure_loop rho a_m_s n Pref cStar burningArea' throatArea (Suc i)
                   (Fin 0.7 * Pc + Fin 0.3 * Pc_new))
      else (Pc, i))"
  by pat_completeness auto
termination
  by (relation "measure (\<lambda>(rho, a_m_s, n, Pref, cStar, burningArea', throatArea, i, Pc). 20 - i)")
     auto

declare pressure_loop.simps [simp del]

text \<open>\<^verbatim>\<open>calculateChamberPressure\<close> with the number of loop iterations it ran.\<close>

definition calculateChamberPressure_run :: "jsnum \<Rightarrow> jsnum \<Rightarrow> propellant \<Rightarrow> jsnum \<times> nat" where
  "calculateChamberPressure_run burningArea' throatArea p =
     (if \<not> truthy burningArea' \<or> burningArea' \<le> Fin 0 then (ATMOSPHERIC_PRESSURE, 0)
      else if \<not> truthy throatArea \<or> throatArea \<le> Fin 0 then (ATMOSPHERIC_PRESSURE, 0)
      else
        (let rho = density p;
             a_mm_s = burnRateCoeff p;
             a_m_s = a_mm_s / Fin 1000;
             n = burnRateExponent p;
             Pref = js_or (referencePressure p) (Fin 6.895) * Fin 1000000;
             cStar = characteristicVelocity p;
             Kn' = burningArea' / throatArea;
             (Pc, iterations) =
               pressure_loop rho a_m_s n Pref cStar burningArea' throatArea 0 (Fin 2000000)
         in if \<not> isFinite Pc \<or> isNaN Pc then (ATMOSPHERIC_PRESSURE, iterations)
            else (Math_max ATMOSPHERIC_PRESSURE (Math_min Pc (Fin 15000000)), iterations)))"

definition calculateChamberPressure :: "jsnum \<Rightarrow> jsnum \<Rightarrow> propellant \<Rightarrow> jsnum" where
  "calculateChamberPressure burningArea' throatArea p =
     fst (calculateChamberPressure_run burningArea' throatArea p)"

definition calculateThrustCoefficient :: "jsnum \<Rightarrow> jsnum \<Rightarrow> jsnum \<Rightarrow> jsnum \<Rightarrow> jsnum" where
  "calculateThrustCoefficient gamma' exitArea throatArea chamberPressure' =
     (let Pe = ATMOSPHERIC_PRESSURE;
          Pc = chamberPressure'
      in if Pc \<le> Pe then Fin 0
         else
           (let epsilon = exitArea / throatArea;
                pressureRatio = Pe / Pc;
                term1 = (Fin 2 * gamma' * gamma') / (gamma' - Fin 1);
                term2 = Math_pow (Fin 2 / (gamma' + Fin 1)) ((gamma' + Fin 1) / (gamma' - Fin 1));
                term3 = Fin 1 - Math_pow pressureRatio ((gamma' - Fin 1) / gamma');
                Cf = Math_sqrt (term1 * term2 * Math_max term3 (Fin 0));
                Cf1 = (if \<not> isFinite Cf \<or> isNaN Cf then Fin 1.5 else Cf)
            in Math_max (Fin 1.0) (Math_min Cf1 (Fin 2.2))))"

definition calculateThrust :: "jsnum \<Rightarrow> jsnum \<Rightarrow> jsnum \<Rightarrow> propellant \<Rightarrow> jsnum" where
  "calculateThrust chamberPressure' throatArea exitArea p =
     (if chamberPressure' \<le> ATMOSPHERIC_PRESSURE then Fin 0
      else if throatArea \<le> Fin 0 then Fin 0
      else
        (let Cf = calculateThrustCoefficient (gamma p) exitArea throatArea chamberPressure';
             thrust' = Cf * chamberPressure' * throatArea
         in if \<not> isFinite thrust' \<or> isNaN thrust' then Fin 0
            else Math_max (Fin 0) thrust'))"

definition calculateHoopStress :: "jsnum \<Rightarrow> jsnum \<Rightarrow> jsnum \<Rightarrow> jsnum" where
  "calculateHoopStress pressure innerRadius' wallThickness' =
     (if wallThickness' \<le> Fin 0 then PosInf
      else
        (let stress' = (pressure * innerRadius') / wallThickness'
         in if \<not> isFinite stress' \<or> isNaN stress' then Fin 0
            else Math_max (Fin 0) stress'))"

definition calculateSafetyFactor :: "jsnum \<Rightarrow> material \<Rightarrow> jsnum" where
  "calculateSafetyFactor stress' m =
     (if stress' \<le> Fin 0 then Fin 99
      else
        (let sf = yieldStrength m / stress'
         in if \<not> isFinite sf \<or> isNaN sf then Fin 99
            else Math_max (Fin 0) (Math_min sf (Fin 99))))"

record failure =
  yielding :: bool
  catastrophic :: bool

definition checkForFailure :: "jsnum \<Rightarrow> material \<Rightarrow> failure" where
  "checkForFailure stress' m =
     \<lparr> yielding = yieldStrength m < stress', catastrophic = ultimateStrength m < stress' \<rparr>"

definition calculateIsp :: "jsnum \<Rightarrow> jsnum \<Rightarrow> jsnum" where
  "calculateIsp cStar thrustCoeff = (cStar * thrustCoeff) / GRAVITY"

section \<open>The simulation state\<close>

text \<open>\<^verbatim>\<open>this.history\<close>: seven arrays that grow together (fields \<open>h_time\<close>, ... for
  \<^verbatim>\<open>history.time\<close>, ...).\<close>

record history =
  h_time :: "jsnum list"
  h_pressure :: "jsnum list"
  h_thrust :: "jsnum list"
  h_burnRate :: "jsnum list"
  h_innerRadius :: "jsnum list"
  h_Kn :: "jsnum list"
  h_stress :: "jsnum list"

text \<open>The fields of a \<^verbatim>\<open>MotorSimulation\<close> object; \<^verbatim>\<open>explosionTime\<close> is \<^verbatim>\<open>null\<close> or a
  number.\<close>

record simulation =
  config :: config
  time :: jsnum
  currentInnerRadius :: jsnum
  chamberPressure :: jsnum
  thrust :: jsnum
  burnRate :: jsnum
  burnRateMmS :: jsnum
  burningArea :: jsnum
  Kn :: jsnum
  stress :: jsnum
  safetyFactor :: jsnum
  isBurning :: bool
  isBurnedOut :: bool
  hasExploded :: bool
  explosionTime :: "jsnum option"
  history :: history
  totalImpulse :: jsnum
  burnTime :: jsnum
  maxThrust :: jsnum
  maxPressure :: jsnum

text \<open>The defaults of the constructor.\<close>

definition default_config :: config where
  "default_config =
     \<lparr> propellant = KNSB,
       material = ALUMINUM,
       grainConfig = \<lparr> grainType = BATES, outerRadius = Fin 0.0285, coreRadius = Fin 0.0095,
         grainLength = Fin 0.065, segments = Fin 4, starPoints = Fin 5,
         starInnerRadius = Fin 0.006 \<rparr>,
       nozzle = \<lparr> throatDiameter = Fin 0.009, exitDiameter = Fin 0.018, efficiency = Fin 0.90 \<rparr>,
       casing = \<lparr> innerRadius = Fin 0.030, wallThickness = Fin 0.003 \<rparr> \<rparr>"

text \<open>
  \<^verbatim>\<open>reset()\<close> assigns every field but \<^verbatim>\<open>config\<close>; \<open>fresh c\<close> is the object it leaves,
  for the configuration \<open>c\<close>.
\<close>

definition fresh :: "config \<Rightarrow> simulation" where
  "fresh c =
     \<lparr> config = c,
       time = Fin 0,
       currentInnerRadius = coreRadius (grainConfig c),
       chamberPressure = ATMOSPHERIC_PRESSURE,
       thrust = Fin 0,
       burnRate = Fin 0,
       burnRateMmS = Fin 0,
       burningArea = Fin 0,
       Kn = Fin 0,
       stress = Fin 0,
       safetyFactor = Fin 99,
       isBurning = False,
       isBurnedOut = False,
       hasExploded = False,
       explosionTime = None,
       history = \<lparr> h_time = [], h_pressure = [], h_thrust = [], h_burnRate = [],
         h_innerRadius = [], h_Kn = [], h_stress = [] \<rparr>,
       totalImpulse = Fin 0,
       burnTime = Fin 0,
       maxThrust = Fin 0,
       maxPressure = Fin 0 \<rparr>"

definition reset :: "simulation \<Rightarrow> simulation" where
  "reset s = fresh (config s)"

text \<open>The argument of the constructor: the top-level keys it holds replace the
  defaults (\<^verbatim>\<open>{ ...defaults, ...config }\<close>).\<close>

record config_arg =
  arg_propellant :: "propellant option"
  arg_material :: "material option"
  arg_grainConfig :: "grainConfig option"
  arg_nozzle :: "nozzle option"
  arg_casing :: "casing option"

definition MotorSimulation :: "config_arg \<Rightarrow> simulation" where
  "MotorSimulation a =
     fresh \<lparr> propellant = (case arg_propellant a of Some v \<Rightarrow> v | None \<Rightarrow> propellant default_config),
             material = (case arg_material a of Some v \<Rightarrow> v | None \<Rightarrow> material default_config),
             grainConfig = (case arg_grainConfig a of Some v \<Rightarrow> v | None \<Rightarrow> grainConfig default_config),
             nozzle = (case arg_nozzle a of Some v \<Rightarrow> v | None \<Rightarrow> nozzle default_config),
             casing = (case arg_casing a of Some v \<Rightarrow> v | None \<Rightarrow> casing default_config) \<rparr>"

definition ignite :: "simulation \<Rightarrow> simulation" where
  "ignite s = (if \<not> isBurnedOut s \<and> \<not> hasExploded s then s\<lparr>isBurning := True\<rparr> else s)"

section \<open>One time step\<close>

text \<open>
  \<^verbatim>\<open>update(deltaTime)\<close> is split at its two \<^verbatim>\<open>return\<close>s inside the body.
  \<open>update_regress\<close> runs the assignments from \<^verbatim>\<open>this.time += deltaTime\<close> to the
  regression \<^verbatim>\<open>this.currentInnerRadius += regression\<close>: the primed names are the values
  assigned to the fields, in the order of the source.
\<close>

definition update_regress :: "simulation \<Rightarrow> jsnum \<Rightarrow> jsnum \<Rightarrow> simulation" where
  "update_regress s deltaTime throatArea =
     (let time' = time s + deltaTime;
          burningArea' = calculateBurningArea (grainConfig (config s)) (currentInnerRadius s);
          Kn' = burningArea' / throatArea;
          chamberPressure' = calculateChamberPressure burningArea' throatArea (propellant (config s));
          maxPressure' = Math_max (maxPressure s) chamberPressure';
          burnRate' = calculateBurnRate chamberPressure' (propellant (config s));
          burnRateMmS' = burnRate' * Fin 1000;
          regression = burnRate' * deltaTime
      in s\<lparr>time := time',
           burningArea := burningArea',
           Kn := Kn',
           chamberPressure := chamberPressure',
           maxPressure := maxPressure',
           burnRate := burnRate',
           burnRateMmS := burnRateMmS',
           currentInnerRadius := currentInnerRadius s + regression\<rparr>)"

text \<open>The burnout test, on the state after the regression.\<close>

definition burnout_reached :: "simulation \<Rightarrow> bool" where
  "burnout_reached s =
     (let webThickness = outerRadius (grainConfig (config s)) - coreRadius (grainConfig (config s));
          webRemaining = outerRadius (grainConfig (config s)) - currentInnerRadius s
      in webRemaining \<le> Fin 0.001
         \<or> currentInnerRadius s \<ge> outerRadius (grainConfig (config s)) * Fin 0.98)"

text \<open>The body of the burnout branch, up to its \<^verbatim>\<open>return\<close>.\<close>

definition update_burnout :: "simulation \<Rightarrow> simulation" where
  "update_burnout s =
     s\<lparr>isBurnedOut := True,
       isBurning := False,
       burnTime := time s,
       thrust := Fin 0,
       chamberPressure := ATMOSPHERIC_PRESSURE,
       burnRate := Fin 0,
       burnRateMmS := Fin 0\<rparr>"

text \<open>The history sample at the end of the body (\<^verbatim>\<open>if (this.history.time.length === 0 || ...)\<close>).\<close>

definition record_history :: "simulation \<Rightarrow> simulation" where
  "record_history s =
     (if h_time (history s) = []
         \<or> time s - last (h_time (history s)) \<ge> Fin 0.01
      then s\<lparr>history :=
             \<lparr> h_time = h_time (history s) @ [time s],
               h_pressure = h_pressure (history s) @ [chamberPressure s / Fin 1000000],
               h_thrust = h_thrust (history s) @ [thrust s],
               h_burnRate = h_burnRate (history s) @ [burnRateMmS s],
               h_innerRadius = h_innerRadius (history s) @ [currentInnerRadius s * Fin 1000],
               h_Kn = h_Kn (history s) @ [Kn s],
               h_stress = h_stress (history s) @ [stress s / Fin 1000000] \<rparr>\<rparr>
      else s)"

text \<open>The rest of the body: thrust, stress, failure, impulse and the history sample.\<close>

definition update_finish :: "simulation \<Rightarrow> jsnum \<Rightarrow> jsnum \<Rightarrow> jsnum \<Rightarrow> simulation" where
  "update_finish s deltaTime throatArea exitArea =
     (let thrust' = calculateThrust (chamberPressure s) throatArea exitArea (propellant (config s))
                    * efficiency (nozzle (config s));
          maxThrust' = Math_max (maxThrust s) thrust';
          stress' = calculateHoopStress (chamberPressure s) (innerRadius (casing (config s)))
                      (wallThickness (casing (config s)));
          safetyFactor' = calculateSafetyFactor stress' (material (config s));
          failure = checkForFailure stress' (material (config s));
          s1 = s\<lparr>thrust := thrust', maxThrust := maxThrust', stress := stress',
                 safetyFactor := safetyFactor'\<rparr>;
          s2 = (if catastrophic failure
                then s1\<lparr>hasExploded := True, explosionTime := Some (time s1)\<rparr> else s1)
      in record_history (s2\<lparr>totalImpulse := totalImpulse s2 + thrust' * deltaTime\<rparr>))"

text \<open>\<^verbatim>\<open>update(deltaTime)\<close>: the object after the call. The value the call returns is
  \<open>getState\<close> of that object.\<close>

definition update :: "simulation \<Rightarrow> jsnum \<Rightarrow> simulation" where
  "update s deltaTime =
     (if \<not> isBurning s \<or> isBurnedOut s \<or> hasExploded s then s
      else
        (let throatArea = calculateThroatArea (throatDiameter (nozzle (config s)));
             exitArea = Math_PI * Math_pow (exitDiameter (nozzle (config s)) / Fin 2) (Fin 2);
             s' = update_regress s deltaTime throatArea
         in if burnout_reached s' then update_burnout s'
            else update_finish s' deltaTime throatArea exitArea))"

text \<open>The object \<^verbatim>\<open>getState()\<close> returns (\<^verbatim>\<open>burnRate\<close> is \<^verbatim>\<open>this.burnRateMmS\<close>).\<close>

record snapshot =
  snap_time :: jsnum
  snap_chamberPressure :: jsnum
  snap_thrust :: jsnum
  snap_burnRate :: jsnum
  snap_burningArea :: jsnum
  snap_Kn :: jsnum
  snap_currentInnerRadius :: jsnum
  snap_stress :: jsnum
  snap_safetyFactor :: jsnum
  grainBurnProgress :: jsnum
  snap_isBurning :: bool
  snap_isBurnedOut :: bool
  snap_hasExploded :: bool
  snap_explosionTime :: "jsnum option"
  snap_totalImpulse :: jsnum
  snap_burnTime :: jsnum
  snap_maxThrust :: jsnum
  snap_maxPressure :: jsnum
  snap_history :: history
  snap_config :: config

definition getState :: "simulation \<Rightarrow> snapshot" where
  "getState s =
     (let webThickness = outerRadius (grainConfig (config s)) - coreRadius (grainConfig (config s));
          webBurned = currentInnerRadius s - coreRadius (grainConfig (config s));
          grainBurnProgress' = Math_max (Fin 0) (Math_min (webBurned / webThickness) (Fin 1))
      in \<lparr> snap_time = time s,
           snap_chamberPressure = chamberPressure s,
           snap_thrust = thrust s,
           snap_burnRate = burnRateMmS s,
           snap_burningArea = burningArea s,
           snap_Kn = Kn s,
           snap_currentInnerRadius = currentInnerRadius s,
           snap_stress = stress s,
           snap_safetyFactor = safetyFactor s,
           grainBurnProgress = (if isNaN grainBurnProgress' then Fin 0 else grainBurnProgress'),
           snap_isBurning = isBurning s,
           snap_isBurnedOut = isBurnedOut s,
           snap_hasExploded = hasExploded s,
           snap_explosionTime = explosionTime s,
           snap_totalImpulse = totalImpulse s,
           snap_burnTime = burnTime s,
           snap_maxThrust = maxThrust s,
           snap_maxPressure = maxPressure s,
           snap_history = history s,
           snap_config = config s \<rparr>)"

section \<open>Configuration updates\<close>

text \<open>
  The argument of \<^verbatim>\<open>updateConfig\<close>: each top-level key is present or not. A
  propellant or a material replaces the old one; for \<^verbatim>\<open>grainConfig\<close>, \<^verbatim>\<open>nozzle\<close> and
  \<^verbatim>\<open>casing\<close> the argument holds some of the fields, and the spread
  \<^verbatim>\<open>{ ...old, ...new }\<close> keeps the old value of every field the argument leaves out.
\<close>

record grainConfig_part =
  part_grainType :: "string option"
  part_outerRadius :: "jsnum option"
  part_coreRadius :: "jsnum option"
  part_grainLength :: "jsnum option"
  part_segments :: "jsnum option"
  part_starPoints :: "jsnum option"
  part_starInnerRadius :: "jsnum option"

record nozzle_part =
  part_throatDiameter :: "jsnum option"
  part_exitDiameter :: "jsnum option"
  part_efficiency :: "jsnum option"

record casing_part =
  part_innerRadius :: "jsnum option"
  part_wallThickness :: "jsnum option"

record newConfig =
  new_propellant :: "propellant option"
  new_material :: "material option"
  new_grainConfig :: "grainConfig_part option"
  new_nozzle :: "nozzle_part option"
  new_casing :: "casing_part option"

definition spread :: "'a \<Rightarrow> 'a option \<Rightarrow> 'a" where
  "spread old new = (case new of Some v \<Rightarrow> v | None \<Rightarrow> old)"

definition spread_grainConfig :: "grainConfig \<Rightarrow> grainConfig_part \<Rightarrow> grainConfig" where
  "spread_grainConfig g n =
     \<lparr> grainType = spread (grainType g) (part_grainType n),
       outerRadius = spread (outerRadius g) (part_outerRadius n),
       coreRadius = spread (coreRadius g) (part_coreRadius n),
       grainLength = spread (grainLength g) (part_grainLength n),
       segments = spread (segments g) (part_segments n),
       starPoints = spread (starPoints g) (part_starPoints n),
       starInnerRadius = spread (starInnerRadius g) (part_starInnerRadius n) \<rparr>"

definition spread_nozzle :: "nozzle \<Rightarrow> nozzle_part \<Rightarrow> nozzle" where
  "spread_nozzle z n =
     \<lparr> throatDiameter = spread (throatDiameter z) (part_throatDiameter n),
       exitDiameter = spread (exitDiameter z) (part_exitDiameter n),
       efficiency = spread (efficiency z) (part_efficiency n) \<rparr>"

definition spread_casing :: "casing \<Rightarrow> casing_part \<Rightarrow> casing" where
  "spread_casing c n =
     \<lparr> innerRadius = spread (innerRadius c) (part_innerRadius n),
       wallThickness = spread (wallThickness c) (part_wallThickness n) \<rparr>"

definition updateConfig :: "simulation \<Rightarrow> newConfig \<Rightarrow> simulation" where
  "updateConfig s n =
     (let c1 = (case new_propellant n of Some v \<Rightarrow> (config s)\<lparr>propellant := v\<rparr>
                | None \<Rightarrow> config s);
          c2 = (case new_material n of Some v \<Rightarrow> c1\<lparr>material := v\<rparr> | None \<Rightarrow> c1);
          c3 = (case new_grainConfig n of
                  Some v \<Rightarrow> c2\<lparr>grainConfig := spread_grainConfig (grainConfig c2) v\<rparr>
                | None \<Rightarrow> c2);
          c4 = (case new_nozzle n of
                  Some v \<Rightarrow> c3\<lparr>nozzle := spread_nozzle (nozzle c3) v\<rparr>
                | None \<Rightarrow> c3);
          c5 = (case new_casing n of
                  Some v \<Rightarrow> c4\<lparr>casing := spread_casing (casing c4) v\<rparr>
                | None \<Rightarrow> c4)
      in s\<lparr>config := c5\<rparr>)"

section \<open>Sequences of calls\<close>

datatype call = Ignite | Update jsnum | Reset

fun do_call :: "simulation \<Rightarrow> call \<Rightarrow> simulation" where
  "do_call s Ignite = ignite s"
| "do_call s (Update deltaTime) = update s deltaTime"
| "do_call s Reset = reset s"

fun run :: "simulation \<Rightarrow> call list \<Rightarrow> simulation" where
  "run s [] = s"
| "run s (c # cs) = run (do_call s c) cs"

section \<open>Notions used in the statements\<close>

text \<open>The value of the local \<^verbatim>\<open>rate_m_s\<close> of \<open>calculateBurnRate\<close>, and the guard and
  clamp that follow it.\<close>

definition rate_m_s :: "jsnum \<Rightarrow> propellant \<Rightarrow> jsnum" where
  "rate_m_s pressure p =
     burnRateCoeff p
     * Math_pow (Math_max (pressure / Fin 1000000) (Fin 0.1) / js_or (referencePressure p) (Fin 6.895))
         (burnRateExponent p)
     / Fin 1000"

definition clamp_rate :: "jsnum \<Rightarrow> jsnum" where
  "clamp_rate r =
     (if \<not> isFinite r \<or> isNaN r then Fin 0 else Math_max (Fin 0) (Math_min r (Fin 0.030)))"

text \<open>The ratio \<^verbatim>\<open>webBurned / webThickness\<close> of \<open>getState\<close>.\<close>

definition burn_ratio :: "simulation \<Rightarrow> jsnum" where
  "burn_ratio s =
     (currentInnerRadius s - coreRadius (grainConfig (config s)))
     / (outerRadius (grainConfig (config s)) - coreRadius (grainConfig (config s)))"

text \<open>
  The lifecycle phase, read from the three flags: \<open>Burning\<close> is the one phase in which
  \<open>update\<close> passes its guard.
\<close>

datatype phase = Idle | Burning | BurnedOut | Exploded

definition lifecyclePhase :: "simulation \<Rightarrow> phase" where
  "lifecyclePhase s =
     (if hasExploded s then Exploded
      else if isBurnedOut s then BurnedOut
      else if isBurning s then Burning
      else Idle)"

text \<open>Every entry of \<^verbatim>\<open>history.time\<close> is at least 10 ms after the entry before it,
  the difference being the one the source computes.\<close>

fun spaced :: "jsnum list \<Rightarrow> bool" where
  "spaced (t1 # t2 # ts) = (t2 - t1 \<ge> Fin 0.01 \<and> spaced (t2 # ts))"
| "spaced _ = True"

text \<open>A call whose time step, if it has one, is a finite positive number.\<close>

fun valid_call :: "call \<Rightarrow> bool" where
  "valid_call (Update deltaTime) = (isFinite deltaTime \<and> Fin 0 < deltaTime)"
| "valid_call _ = True"

text \<open>The bounds on the inner radius that every call preserves, for the configuration
  \<open>c\<close>.\<close>

definition radius_inv :: "config \<Rightarrow> simulation \<Rightarrow> bool" where
  "radius_inv c s =
     (config s = c
      \<and> coreRadius (grainConfig c) \<le> currentInnerRadius s
      \<and> (isBurnedOut s \<or> currentInnerRadius s \<le> outerRadius (grainConfig c)))"

text \<open>Arguments with no key: \<^verbatim>\<open>new MotorSimulation()\<close>, \<^verbatim>\<open>updateConfig({})\<close> and
  \<^verbatim>\<open>{ grainConfig: {} }\<close>.\<close>

definition no_args :: config_arg where
  "no_args = \<lparr> arg_propellant = None, arg_material = None, arg_grainConfig = None,
     arg_nozzle = None, arg_casing = None \<rparr>"

definition no_keys :: newConfig where
  "no_keys = \<lparr> new_propellant = None, new_material = None, new_grainConfig = None,
     new_nozzle = None, new_casing = None \<rparr>"

definition no_grain_keys :: grainConfig_part where
  "no_grain_keys = \<lparr> part_grainType = None, part_outerRadius = None, part_coreRadius = None,
     part_grainLength = None, part_segments = None, part_starPoints = None,
     part_starInnerRadius = None \<rparr>"

text \<open>Two states of the default motor: burning with 0.5 mm of web left, and after the
  burnout branch.\<close>

definition near_burnout :: simulation where
  "near_burnout = (ignite (MotorSimulation no_args))\<lparr>currentInnerRadius := Fin 0.028\<rparr>"

definition burned_out :: simulation where
  "burned_out = update_burnout (ignite (MotorSimulation no_args))"

section \<open>Facts about the numbers\<close>

lemmas js_arith = plus_jsnum_def minus_jsnum_def times_jsnum_def divide_jsnum_def
  less_jsnum_def less_eq_jsnum_def uminus_jsnum_def js_mul_def js_div_def mk_zero_def mk_inf_def

lemma Fin_le: "Fin x \<le> Fin y \<longleftrightarrow> x \<le> y"
  by (simp add: less_eq_jsnum_def)

lemma le_not_NaN: "(x::jsnum) \<le> y \<Longrightarrow> \<not> isNaN x \<and> \<not> isNaN y"
  by (cases x; cases y) (simp_all add: js_arith)

lemma le_refl_left: "(x::jsnum) \<le> y \<Longrightarrow> x \<le> x"
  by (cases x; cases y) (simp_all add: js_arith)

lemma mul_nonneg_pos: "0 \<le> r \<Longrightarrow> 0 < d \<Longrightarrow> Fin r * Fin d = Fin (r * d)"
  by (auto simp add: js_arith)

lemma le_add_nonneg: "c \<le> x \<Longrightarrow> 0 \<le> e \<Longrightarrow> c \<le> x + Fin e"
  by (cases c; cases x) (auto simp add: js_arith)

lemma clamp01:
  "Math_max (Fin 0) (Math_min x (Fin 1)) =
     (case x of NaN \<Rightarrow> NaN | PosInf \<Rightarrow> Fin 1 | NegInf \<Rightarrow> Fin 0 | NegZero \<Rightarrow> Fin 0
      | Fin r \<Rightarrow> Fin (max 0 (min r 1)))"
  by (cases x) (auto simp add: Math_max_def Math_min_def js_arith max_def min_def)

lemma clamp_pressure:
  "isFinite x \<Longrightarrow>
   \<exists>r. Math_max (Fin 101325) (Math_min x (Fin 15000000)) = Fin r \<and> 101325 \<le> r \<and> r \<le> 15000000"
  by (cases x) (auto simp add: Math_max_def Math_min_def js_arith)

lemma pow_pos_base: "0 < v \<Longrightarrow> Math_pow (Fin v) (Fin k) = Fin (v powr k)"
  by (simp add: Math_pow_def js_arith)

lemma pow_neg_base:
  "v < 0 \<Longrightarrow> k \<noteq> 0 \<Longrightarrow> Math_pow (Fin v) (Fin k) =
     (if \<not> is_integral (Fin k) then NaN
      else if is_odd_integer (Fin k) then Fin (- ((- v) powr k)) else Fin ((- v) powr k))"
  by (simp add: Math_pow_def js_arith)

lemma pow_dead_PosInf_exp: "\<not> (\<exists>w. w \<noteq> 0 \<and> Math_pow x PosInf = Fin w)"
  by (cases x) (auto simp add: Math_pow_def js_arith)

lemma pow_dead_zero_base:
  "is_zero x \<Longrightarrow> Fin 0 < n \<Longrightarrow> \<not> (\<exists>w. w \<noteq> 0 \<and> Math_pow x n = Fin w)"
  by (cases x; cases n) (auto simp add: Math_pow_def js_arith)

section \<open>The chamber-pressure solver\<close>

lemma loop_count: "i \<le> 20 \<Longrightarrow> snd (pressure_loop rho a n Pref cStar b t i Pc) \<le> 20"
proof (induction rho a n Pref cStar b t i Pc rule: pressure_loop.induct)
  case (1 rho a_m_s n Pref cStar burningArea' throatArea i Pc)
  show ?case
  proof (cases "i < 20")
    case True
    then show ?thesis
      using 1 by (subst pressure_loop.simps) (auto simp add: Let_def)
  next
    case False
    with 1 show ?thesis by (subst pressure_loop.simps) simp
  qed
qed

lemma chamber_range:
  "\<exists>r. calculateChamberPressure b t p = Fin r \<and> 101325 \<le> r \<and> r \<le> 15000000"
  using clamp_pressure
  by (auto simp add: calculateChamberPressure_def calculateChamberPressure_run_def
      ATMOSPHERIC_PRESSURE_def Let_def split: prod.splits)

lemma chamber_iterations: "snd (calculateChamberPressure_run b t p) \<le> 20"
proof -
  have "snd (pressure_loop rho a n Pref cStar b t 0 Pc) \<le> 20" for rho a n Pref cStar Pc
    by (rule loop_count) simp
  then show ?thesis
    by (simp add: calculateChamberPressure_run_def Let_def case_prod_beta)
qed

text \<open>
  C1. For positive burning and throat areas and any propellant,
  \<open>calculateChamberPressure\<close> runs its loop body at most 20 times and returns a finite
  value between 101325 and 15e6 Pa; when either area is \<open>\<le> 0\<close> it returns 101325 Pa
  without entering the loop.
\<close>

theorem chamber_pressure_bounded:
  "(Fin 0 < burningArea' \<and> Fin 0 < throatArea \<longrightarrow>
      snd (calculateChamberPressure_run burningArea' throatArea p) \<le> 20
      \<and> isFinite (calculateChamberPressure burningArea' throatArea p)
      \<and> Fin 101325 \<le> calculateChamberPressure burningArea' throatArea p
      \<and> calculateChamberPressure burningArea' throatArea p \<le> Fin 15000000)
   \<and> (burningArea' \<le> Fin 0 \<or> throatArea \<le> Fin 0 \<longrightarrow>
      calculateChamberPressure_run burningArea' throatArea p = (Fin 101325, 0))"
proof -
  obtain r where "calculateChamberPressure burningArea' throatArea p = Fin r"
    "101325 \<le> r" "r \<le> 15000000"
    using chamber_range by blast
  then have "isFinite (calculateChamberPressure burningArea' throatArea p)
      \<and> Fin 101325 \<le> calculateChamberPressure burningArea' throatArea p
      \<and> calculateChamberPressure burningArea' throatArea p \<le> Fin 15000000"
    by (simp add: Fin_le)
  moreover have "burningArea' \<le> Fin 0 \<or> throatArea \<le> Fin 0 \<longrightarrow>
      calculateChamberPressure_run burningArea' throatArea p = (Fin 101325, 0)"
    by (auto simp add: calculateChamberPressure_run_def ATMOSPHERIC_PRESSURE_def)
  ultimately show ?thesis using chamber_iterations by blast
qed

theorem chamber_pressure_bounded_witness:
  "Fin 0 < Fin 0.02 \<and> Fin 0 < Fin 0.00006
   \<and> snd (calculateChamberPressure_run (Fin 0.02) (Fin 0.00006) KNSB) \<le> 20
   \<and> isFinite (calculateChamberPressure (Fin 0.02) (Fin 0.00006) KNSB)
   \<and> Fin 101325 \<le> calculateChamberPressure (Fin 0.02) (Fin 0.00006) KNSB
   \<and> calculateChamberPressure (Fin 0.02) (Fin 0.00006) KNSB \<le> Fin 15000000
   \<and> Fin 0 \<le> Fin 0
   \<and> calculateChamberPressure_run (Fin 0) (Fin 0.00006) KNSB = (Fin 101325, 0)"
  using chamber_pressure_bounded[of "Fin 0.02" "Fin 0.00006" KNSB]
    chamber_pressure_bounded[of "Fin 0" "Fin 0.00006" KNSB]
  by (simp add: less_jsnum_def less_eq_jsnum_def)

section \<open>The update step\<close>

lemma regress_frame:
  "config (update_regress s dt A) = config s"
  "history (update_regress s dt A) = history s"
  "time (update_regress s dt A) = time s + dt"
  "stress (update_regress s dt A) = stress s"
  "safetyFactor (update_regress s dt A) = safetyFactor s"
  "totalImpulse (update_regress s dt A) = totalImpulse s"
  "maxThrust (update_regress s dt A) = maxThrust s"
  "hasExploded (update_regress s dt A) = hasExploded s"
  "explosionTime (update_regress s dt A) = explosionTime s"
  "isBurnedOut (update_regress s dt A) = isBurnedOut s"
  "isBurning (update_regress s dt A) = isBurning s"
  by (simp_all add: update_regress_def Let_def)

lemma regress_radius:
  "currentInnerRadius (update_regress s dt A) =
     currentInnerRadius s
     + calculateBurnRate
         (calculateChamberPressure
            (calculateBurningArea (grainConfig (config s)) (currentInnerRadius s)) A
            (propellant (config s)))
         (propellant (config s)) * dt"
  by (simp add: update_regress_def Let_def)

lemma record_history_frame:
  "config (record_history s) = config s"
  "currentInnerRadius (record_history s) = currentInnerRadius s"
  "isBurnedOut (record_history s) = isBurnedOut s"
  by (simp_all add: record_history_def)

lemma record_history_time:
  "h_time (history (record_history s)) =
     (if h_time (history s) = [] \<or> time s - last (h_time (history s)) \<ge> Fin 0.01
      then h_time (history s) @ [time s] else h_time (history s))"
  by (simp add: record_history_def)

lemma finish_frame:
  "config (update_finish s dt A E) = config s"
  "currentInnerRadius (update_finish s dt A E) = currentInnerRadius s"
  "isBurnedOut (update_finish s dt A E) = isBurnedOut s"
  by (simp_all add: update_finish_def Let_def record_history_frame)

lemma finish_history:
  "h_time (history (update_finish s dt A E)) =
     (if h_time (history s) = [] \<or> time s - last (h_time (history s)) \<ge> Fin 0.01
      then h_time (history s) @ [time s] else h_time (history s))"
  by (simp add: update_finish_def Let_def record_history_time)

section \<open>The burn rate\<close>

lemma burn_rate_unfold: "calculateBurnRate pressure p = clamp_rate (rate_m_s pressure p)"
  by (simp add: calculateBurnRate_def rate_m_s_def clamp_rate_def Let_def)

lemma clamp_rate_cases:
  "clamp_rate r = (case r of Fin v \<Rightarrow> Fin (max 0 (min v 0.030)) | _ \<Rightarrow> Fin 0)"
  by (cases r) (auto simp add: clamp_rate_def Math_max_def Math_min_def js_arith max_def min_def)

lemma burn_rate_range: "\<exists>r. calculateBurnRate pressure p = Fin r \<and> 0 \<le> r \<and> r \<le> 0.030"
  by (cases "rate_m_s pressure p") (auto simp add: burn_rate_unfold clamp_rate_cases)

lemma P_MPa_val:
  "\<not> isNaN p \<Longrightarrow> p \<noteq> PosInf \<Longrightarrow>
   Math_max (p / Fin 1000000) (Fin 0.1) = Fin (max (val p / 1000000) 0.1)"
  by (cases p) (auto simp add: Math_max_def js_arith)

lemma P_MPa_mono:
  "p1 \<le> p2 \<Longrightarrow> p2 \<noteq> PosInf \<Longrightarrow>
   max (val p1 / 1000000) 0.1 \<le> max (val p2 / 1000000) (0.1::real)"
  by (cases p1; cases p2) (auto simp add: js_arith)

text \<open>The product \<open>a * pw / 1000\<close> after the guard and the clamp: it is 0 unless \<open>pw\<close> is a
  finite number other than zero.\<close>

lemma rate_of_dead_power:
  "\<not> (\<exists>w. w \<noteq> 0 \<and> pw = Fin w) \<Longrightarrow> clamp_rate (a * pw / Fin 1000) = Fin 0"
  by (cases a; cases pw) (auto simp add: clamp_rate_cases js_arith)

lemma rate_of_live_power:
  "w \<noteq> 0 \<Longrightarrow> clamp_rate (a * Fin w / Fin 1000) =
     (case a of Fin av \<Rightarrow> Fin (max 0 (min (av * w / 1000) 0.030)) | _ \<Rightarrow> Fin 0)"
  by (cases a) (auto simp add: clamp_rate_cases js_arith)

text \<open>
  For a truthy reference pressure \<open>q\<close> and an exponent \<open>n > 0\<close>, the power
  \<open>(m / q)\<^sup>n\<close> is, for every \<open>m > 0\<close> alike, either never a finite non-zero number or
  a fixed non-zero multiple of a real power of \<open>m\<close>.
\<close>

lemma pow_shape:
  assumes "truthy q" "Fin 0 < n"
  shows "(\<forall>m>0. \<not> (\<exists>w. w \<noteq> 0 \<and> Math_pow (Fin m / q) n = Fin w))
       \<or> (\<exists>sg d k. sg \<noteq> 0 \<and> 0 < d \<and> 0 < k
            \<and> (\<forall>m>0. Math_pow (Fin m / q) n = Fin (sg * ((m / d) powr k))))"
proof (cases n)
  case (Fin k)
  with assms(2) have k: "0 < k" by (simp add: js_arith)
  show ?thesis
  proof (cases q)
    case (Fin qv)
    with assms(1) have qv: "qv \<noteq> 0" by (simp add: truthy_def)
    have quot: "Fin m / q = Fin (m / qv)" if "0 < m" for m
      using that qv Fin by (simp add: js_arith)
    show ?thesis
    proof (cases "0 < qv")
      case True
      have "Math_pow (Fin m / q) n = Fin (1 * ((m / qv) powr k))" if "0 < m" for m
        using that True quot \<open>n = Fin k\<close> by (simp add: pow_pos_base)
      with True k show ?thesis by (intro disjI2 exI[of _ 1] exI[of _ qv] exI[of _ k]) simp
    next
      case False
      with qv have neg: "qv < 0" by simp
      have base: "m / qv < 0" "- (m / qv) = m / (- qv)" if "0 < m" for m
        using that neg by (simp_all add: divide_neg_neg field_simps)
      show ?thesis
      proof (cases "is_integral (Fin k)")
        case False
        have "Math_pow (Fin m / q) n = NaN" if "0 < m" for m
          using that quot base(1) k False \<open>n = Fin k\<close> by (simp add: pow_neg_base)
        then show ?thesis by simp
      next
        case True
        define sg :: real where "sg = (if is_odd_integer (Fin k) then - 1 else 1)"
        have "Math_pow (Fin m / q) n = Fin (sg * ((m / (- qv)) powr k))" if "0 < m" for m
          using that quot[OF that] base[OF that] k True \<open>n = Fin k\<close>
          by (simp add: pow_neg_base sg_def)
        moreover have "sg \<noteq> 0" by (simp add: sg_def)
        ultimately show ?thesis using neg k
          by (intro disjI2 exI[of _ sg] exI[of _ "- qv"] exI[of _ k]) simp
      qed
    qed
  next
    case NegZero
    with assms(1) show ?thesis by (simp add: truthy_def)
  next
    case PosInf
    have "is_zero (Fin m / q)" for m using PosInf by (simp add: js_arith)
    then show ?thesis using pow_dead_zero_base assms(2) by blast
  next
    case NegInf
    have "is_zero (Fin m / q)" for m using NegInf by (simp add: js_arith)
    then show ?thesis using pow_dead_zero_base assms(2) by blast
  next
    case NaN
    with assms(1) show ?thesis by (simp add: truthy_def)
  qed
next
  case NegZero
  with assms(2) show ?thesis by (simp add: js_arith)
next
  case PosInf
  then show ?thesis using pow_dead_PosInf_exp by simp
next
  case NegInf
  with assms(2) show ?thesis by (simp add: js_arith)
next
  case NaN
  with assms(2) show ?thesis by (simp add: js_arith)
qed

lemma clamp_mono: "(y1::real) \<le> y2 \<Longrightarrow> max 0 (min y1 c) \<le> max 0 (min y2 c)"
  by (simp add: max_def min_def)

lemma clamp_neg: "(y::real) < 0 \<Longrightarrow> max 0 (min y 0.030) = 0"
  by (simp add: max_def min_def)

lemma scaled_clamp_mono:
  fixes av sg X1 X2 :: real
  assumes X: "0 < X1" "X1 \<le> X2"
  shows "max 0 (min (av * (sg * X1) / 1000) 0.030) \<le> max 0 (min (av * (sg * X2) / 1000) 0.030)"
proof (cases "0 \<le> av * sg")
  case True
  then have "(av * sg) * X1 \<le> (av * sg) * X2" using X by (intro mult_left_mono) simp_all
  then have "av * (sg * X1) \<le> av * (sg * X2)" by (simp only: mult.assoc)
  then have "av * (sg * X1) / 1000 \<le> av * (sg * X2) / 1000" by (rule divide_right_mono) simp
  then show ?thesis by (rule clamp_mono)
next
  case False
  then have n: "av * sg < 0" by simp
  have "0 < X2" using X by simp
  with n X(1) have "(av * sg) * X1 < 0" "(av * sg) * X2 < 0"
    by (simp_all only: mult_neg_pos)
  then have "av * (sg * X1) < 0" "av * (sg * X2) < 0" by (simp_all only: mult.assoc)
  then have "av * (sg * X1) / 1000 < 0" "av * (sg * X2) / 1000 < 0"
    by (simp_all only: divide_neg_pos zero_less_numeral)
  then show ?thesis by (simp only: clamp_neg)
qed

lemma core_mono:
  assumes "truthy q" "Fin 0 < n" "0 < m1" "m1 \<le> m2"
  shows "clamp_rate (a * Math_pow (Fin m1 / q) n / Fin 1000)
       \<le> clamp_rate (a * Math_pow (Fin m2 / q) n / Fin 1000)"
proof -
  from assms have m2: "0 < m2" by simp
  have z: "Fin 0 \<le> Fin 0" by (simp add: Fin_le)
  from pow_shape[OF assms(1,2)] show ?thesis
  proof
    assume dead: "\<forall>m>0. \<not> (\<exists>w. w \<noteq> 0 \<and> Math_pow (Fin m / q) n = Fin w)"
    then have "clamp_rate (a * Math_pow (Fin m1 / q) n / Fin 1000) = Fin 0"
      "clamp_rate (a * Math_pow (Fin m2 / q) n / Fin 1000) = Fin 0"
      using assms(3) m2 by (simp_all add: rate_of_dead_power)
    then show ?thesis by (simp add: Fin_le)
  next
    assume "\<exists>sg d k. sg \<noteq> 0 \<and> 0 < d \<and> 0 < k
            \<and> (\<forall>m>0. Math_pow (Fin m / q) n = Fin (sg * ((m / d) powr k)))"
    then obtain sg d k where sg: "sg \<noteq> 0" and d: "0 < d" and k: "0 < k"
      and pw: "\<And>m. 0 < m \<Longrightarrow> Math_pow (Fin m / q) n = Fin (sg * ((m / d) powr k))"
      by blast
    define X1 where "X1 = (m1 / d) powr k"
    define X2 where "X2 = (m2 / d) powr k"
    have X: "0 < X1" "X1 \<le> X2"
      using assms(3,4) d k m2 by (simp_all add: X1_def X2_def powr_mono2 divide_right_mono)
    have e1: "clamp_rate (a * Math_pow (Fin m1 / q) n / Fin 1000) =
        (case a of Fin av \<Rightarrow> Fin (max 0 (min (av * (sg * X1) / 1000) 0.030)) | _ \<Rightarrow> Fin 0)"
      using X sg by (simp add: pw[OF assms(3)] X1_def[symmetric] rate_of_live_power)
    have e2: "clamp_rate (a * Math_pow (Fin m2 / q) n / Fin 1000) =
        (case a of Fin av \<Rightarrow> Fin (max 0 (min (av * (sg * X2) / 1000) 0.030)) | _ \<Rightarrow> Fin 0)"
      using X sg by (simp add: pw[OF m2] X2_def[symmetric] rate_of_live_power)
    show ?thesis
    proof (cases a)
      case (Fin av)
      have "max 0 (min (av * (sg * X1) / 1000) 0.030)
          \<le> max 0 (min (av * (sg * X2) / 1000) (0.030::real))"
        using X by (rule scaled_clamp_mono)
      then show ?thesis unfolding e1 e2 by (simp add: Fin Fin_le)
    next
      case NegZero
      show ?thesis unfolding e1 e2 by (simp add: NegZero z)
    next
      case PosInf
      show ?thesis unfolding e1 e2 by (simp add: PosInf z)
    next
      case NegInf
      show ?thesis unfolding e1 e2 by (simp add: NegInf z)
    next
      case NaN
      show ?thesis unfolding e1 e2 by (simp add: NaN z)
    qed
  qed
qed

lemma js_or_truthy: "truthy (js_or x (Fin 6.895))"
  by (simp add: js_or_def truthy_def)

lemma burn_rate_mono:
  assumes "Fin 0 < burnRateExponent p" "p1 \<le> p2" "p2 \<noteq> PosInf"
  shows "calculateBurnRate p1 p \<le> calculateBurnRate p2 p"
proof -
  from assms(2) have nn: "\<not> isNaN p1" "\<not> isNaN p2" "p1 \<noteq> PosInf \<or> p2 = PosInf"
    by (cases p1; cases p2; simp add: js_arith)+
  with assms(3) have fin1: "p1 \<noteq> PosInf" by simp
  define m1 where "m1 = max (val p1 / 1000000) (0.1::real)"
  define m2 where "m2 = max (val p2 / 1000000) (0.1::real)"
  have m: "0 < m1" "m1 \<le> m2"
    using P_MPa_mono[OF assms(2,3)] by (simp_all add: m1_def m2_def)
  have r1: "rate_m_s p1 p = burnRateCoeff p
      * Math_pow (Fin m1 / js_or (referencePressure p) (Fin 6.895)) (burnRateExponent p) / Fin 1000"
    using nn(1) fin1 by (simp add: rate_m_s_def P_MPa_val m1_def)
  have r2: "rate_m_s p2 p = burnRateCoeff p
      * Math_pow (Fin m2 / js_or (referencePressure p) (Fin 6.895)) (burnRateExponent p) / Fin 1000"
    using nn(2) assms(3) by (simp add: rate_m_s_def P_MPa_val m2_def)
  show ?thesis
    unfolding burn_rate_unfold r1 r2
    by (rule core_mono[OF js_or_truthy assms(1) m])
qed

text \<open>At the pressure \<open>+Infinity\<close> the intermediate rate is never finite.\<close>

lemma rate_at_infinity_not_finite:
  assumes "Fin 0 < burnRateExponent p"
  shows "\<not> isFinite (rate_m_s PosInf p)"
proof -
  define q where "q = js_or (referencePressure p) (Fin 6.895)"
  have q: "truthy q" unfolding q_def by (rule js_or_truthy)
  have m: "Math_max (PosInf / Fin 1000000) (Fin 0.1) = PosInf"
    by (simp add: Math_max_def js_arith)
  have b: "PosInf / q = PosInf \<or> PosInf / q = NegInf \<or> PosInf / q = NaN"
    using q by (cases q) (auto simp add: truthy_def js_arith)
  have pw: "Math_pow (PosInf / q) (burnRateExponent p) = PosInf
      \<or> Math_pow (PosInf / q) (burnRateExponent p) = NegInf
      \<or> Math_pow (PosInf / q) (burnRateExponent p) = NaN"
    using b assms by (cases "burnRateExponent p") (auto simp add: Math_pow_def js_arith)
  have "\<not> isFinite (a * w / Fin 1000)" if "w = PosInf \<or> w = NegInf \<or> w = NaN" for a w
    using that by (cases a) (auto simp add: js_arith)
  then show ?thesis
    using pw unfolding rate_m_s_def m q_def[symmetric] by blast
qed

text \<open>The rate of the catalog propellant KNSB at a finite pressure of at least 0.1 MPa.\<close>

lemma KNSB_rate_m_s:
  assumes "100000 \<le> P"
  shows "rate_m_s (Fin P) KNSB = Fin (8.26 * ((P / 1000000 / 6.895) powr 0.319) / 1000)"
proof -
  have "Math_max (Fin P / Fin 1000000) (Fin 0.1) = Fin (P / 1000000)"
    using assms by (auto simp add: Math_max_def js_arith)
  moreover have "0 < P / 1000000 / 6.895" using assms by simp
  moreover have "Fin (P / 1000000) / Fin 6.895 = Fin (P / 1000000 / 6.895)"
    using assms by (simp add: js_arith)
  ultimately show ?thesis
    by (simp add: rate_m_s_def KNSB_def js_or_def truthy_def pow_pos_base js_arith)
qed

lemma KNSB_rate_at_infinity: "calculateBurnRate PosInf KNSB = Fin 0"
  by (simp add: calculateBurnRate_def KNSB_def js_or_def truthy_def Math_max_def Math_pow_def
      js_arith)

lemma KNSB_rate_pos:
  assumes "100000 \<le> P"
  shows "\<exists>r. calculateBurnRate (Fin P) KNSB = Fin r \<and> 0 < r"
proof -
  have "0 < (P / 1000000 / 6.895) powr 0.319" using assms by simp
  then have "0 < 8.26 * ((P / 1000000 / 6.895) powr 0.319) / 1000" by simp
  then show ?thesis
    unfolding burn_rate_unfold KNSB_rate_m_s[OF assms] clamp_rate_cases
    by (simp add: max_def min_def)
qed

lemma cube_root_bound: "(0.24::real) \<le> 0.0146 powr 0.319"
proof -
  have a: "((0.24::real) powr 3) powr (1/3) = 0.24" by (subst powr_powr) simp
  have b: "(0.24::real) powr 3 = 0.013824" by (subst powr_numeral) (simp_all add: power3_eq_cube)
  have c: "(0.013824::real) powr (1/3) = 0.24" using a unfolding b .
  have "(0.013824::real) powr (1/3) \<le> 0.0146 powr (1/3)" by (rule powr_mono2) simp_all
  also have "(0.0146::real) powr (1/3) \<le> 0.0146 powr 0.319" by (rule powr_mono') simp_all
  finally show ?thesis unfolding c .
qed

lemma KNSB_rate_lower:
  assumes "101325 \<le> P"
  shows "\<exists>r. calculateBurnRate (Fin P) KNSB = Fin r \<and> 0.00198 \<le> r"
proof -
  have P: "100000 \<le> P" using assms by simp
  have "0.0146 \<le> P / 1000000 / 6.895" using assms by simp
  then have "(0.0146::real) powr 0.319 \<le> (P / 1000000 / 6.895) powr 0.319"
    by (intro powr_mono2) simp_all
  with cube_root_bound have "0.24 \<le> (P / 1000000 / 6.895) powr 0.319" by linarith
  then have "0.00198 \<le> 8.26 * ((P / 1000000 / 6.895) powr 0.319) / 1000" by simp
  then show ?thesis
    unfolding burn_rate_unfold KNSB_rate_m_s[OF P] clamp_rate_cases
    by (simp add: max_def min_def)
qed

section \<open>The inner radius\<close>

lemma not_burnout_le:
  assumes "\<not> outer - x \<le> Fin 0.001" "\<not> outer * Fin 0.98 \<le> x" "c \<le> x" "c' \<le> outer"
  shows "x \<le> outer"
proof -
  have "\<not> isNaN x" "\<not> isNaN outer" using assms(3,4) le_not_NaN by blast+
  then show ?thesis using assms(1,2)
    by (cases outer; cases x) (auto simp add: js_arith split: if_splits)
qed

lemma regress_grows:
  assumes "isFinite dt" "Fin 0 < dt" "c \<le> currentInnerRadius s"
  shows "c \<le> currentInnerRadius (update_regress s dt A)"
proof -
  from assms(1,2) obtain d where d: "dt = Fin d" "0 < d"
    by (cases dt) (auto simp add: js_arith)
  obtain r where r: "calculateBurnRate
         (calculateChamberPressure
            (calculateBurningArea (grainConfig (config s)) (currentInnerRadius s)) A
            (propellant (config s)))
         (propellant (config s)) = Fin r" "0 \<le> r"
    using burn_rate_range by blast
  have "currentInnerRadius (update_regress s dt A) = currentInnerRadius s + Fin (r * d)"
    using d r by (simp add: regress_radius mul_nonneg_pos)
  moreover have "0 \<le> r * d" using d r by simp
  ultimately show ?thesis using assms(3) by (simp add: le_add_nonneg)
qed

lemma inv_update:
  assumes "radius_inv c s" "isFinite dt" "Fin 0 < dt"
    and "coreRadius (grainConfig c) \<le> outerRadius (grainConfig c)"
  shows "radius_inv c (update s dt)"
proof (cases "\<not> isBurning s \<or> isBurnedOut s \<or> hasExploded s")
  case True
  with assms(1) show ?thesis by (simp add: update_def)
next
  case False
  define A where "A = calculateThroatArea (throatDiameter (nozzle (config s)))"
  define E where "E = Math_PI * Math_pow (exitDiameter (nozzle (config s)) / Fin 2) (Fin 2)"
  define s' where "s' = update_regress s dt A"
  have cfg: "config s' = c" using assms(1) by (simp add: s'_def regress_frame radius_inv_def)
  have lo: "coreRadius (grainConfig c) \<le> currentInnerRadius s'"
    unfolding s'_def using assms by (intro regress_grows) (simp_all add: radius_inv_def)
  have upd: "update s dt = (if burnout_reached s' then update_burnout s' else update_finish s' dt A E)"
    using False by (simp add: update_def Let_def A_def E_def s'_def)
  show ?thesis
  proof (cases "burnout_reached s'")
    case True
    then show ?thesis using upd cfg lo by (simp add: radius_inv_def update_burnout_def)
  next
    case nb: False
    then have "currentInnerRadius s' \<le> outerRadius (grainConfig c)"
      using lo assms(4) cfg not_burnout_le[of "outerRadius (grainConfig c)" "currentInnerRadius s'"]
      by (simp add: burnout_reached_def Let_def)
    then show ?thesis using upd nb cfg lo by (simp add: radius_inv_def finish_frame)
  qed
qed

lemma inv_call:
  assumes "radius_inv c s" "valid_call call"
    and "coreRadius (grainConfig c) \<le> outerRadius (grainConfig c)"
  shows "radius_inv c (do_call s call)"
proof (cases call)
  case Ignite
  with assms(1) show ?thesis by (auto simp add: ignite_def radius_inv_def)
next
  case (Update dt)
  with assms show ?thesis by (simp add: inv_update)
next
  case Reset
  with assms(1,3) show ?thesis
    using le_refl_left by (auto simp add: reset_def radius_inv_def fresh_def)
qed

lemma inv_run:
  assumes "coreRadius (grainConfig c) \<le> outerRadius (grainConfig c)"
  shows "radius_inv c s \<Longrightarrow> list_all valid_call cs \<Longrightarrow> radius_inv c (run s cs)"
  by (induction cs arbitrary: s) (simp_all add: inv_call assms)

text \<open>One step of 10 s from ignition, default motor: the radius ends above 28.5 mm.\<close>

lemma overshoot:
  "\<exists>x. currentInnerRadius (run (MotorSimulation no_args) [Ignite, Update (Fin 10)]) = Fin x
     \<and> 0.0285 < x"
proof -
  define s where "s = ignite (MotorSimulation no_args)"
  define A where "A = calculateThroatArea (throatDiameter (nozzle (config s)))"
  define s' where "s' = update_regress s (Fin 10) A"
  have s: "config s = default_config" "currentInnerRadius s = Fin 0.0095"
    "isBurning s" "\<not> isBurnedOut s" "\<not> hasExploded s"
    by (simp_all add: s_def ignite_def MotorSimulation_def no_args_def fresh_def default_config_def)
  obtain P where P: "calculateChamberPressure
      (calculateBurningArea (grainConfig (config s)) (currentInnerRadius s)) A
      (propellant (config s)) = Fin P" "101325 \<le> P"
    using chamber_range by blast
  obtain r where r: "calculateBurnRate (Fin P) KNSB = Fin r" "0.00198 \<le> r"
    using KNSB_rate_lower[OF P(2)] by blast
  have rad: "currentInnerRadius s' = Fin (0.0095 + r * 10)"
    using P(1) r s(1,2) by (simp add: s'_def regress_radius default_config_def mul_nonneg_pos js_arith)
  have big: "0.0285 < 0.0095 + r * 10" using r(2) by simp
  have "burnout_reached s'"
    using rad big s(1)
    by (simp add: burnout_reached_def Let_def s'_def regress_frame default_config_def js_arith)
  then have "update s (Fin 10) = update_burnout s'"
    using s(3-5) by (simp add: update_def Let_def A_def s'_def)
  then have "currentInnerRadius (run (MotorSimulation no_args) [Ignite, Update (Fin 10)])
      = Fin (0.0095 + r * 10)"
    using rad by (simp add: s_def update_burnout_def)
  with big show ?thesis by blast
qed

text \<open>
  C2, as amended. For a configuration with \<open>coreRadius \<le> outerRadius\<close>, every state
  reached from \<open>reset()\<close> by calls of \<open>ignite()\<close>, \<open>update(dt)\<close> with a finite \<open>dt > 0\<close>
  and \<open>reset()\<close> has \<open>coreRadius \<le> currentInnerRadius\<close>, and has
  \<open>currentInnerRadius \<le> outerRadius\<close> as long as it is not burned out. The step that
  detects burnout does not clamp the radius, so a burned-out state may hold a radius
  above \<open>outerRadius\<close>.
\<close>

theorem inner_radius_bounds:
  assumes "coreRadius (grainConfig c) \<le> outerRadius (grainConfig c)"
    and "list_all valid_call cs"
  shows "coreRadius (grainConfig c) \<le> currentInnerRadius (run (fresh c) cs)
    \<and> (isBurnedOut (run (fresh c) cs)
       \<or> currentInnerRadius (run (fresh c) cs) \<le> outerRadius (grainConfig c))"
proof -
  have "radius_inv c (fresh c)"
    using assms(1) le_refl_left by (auto simp add: radius_inv_def fresh_def)
  then have "radius_inv c (run (fresh c) cs)" using assms by (intro inv_run)
  then show ?thesis by (simp add: radius_inv_def)
qed

theorem inner_radius_bounds_witness:
  "coreRadius (grainConfig default_config) \<le> outerRadius (grainConfig default_config)
   \<and> list_all valid_call [Ignite, Update (Fin 0.01), Update (Fin 0.01)]
   \<and> coreRadius (grainConfig default_config)
       \<le> currentInnerRadius (run (fresh default_config) [Ignite, Update (Fin 0.01), Update (Fin 0.01)])
   \<and> (isBurnedOut (run (fresh default_config) [Ignite, Update (Fin 0.01), Update (Fin 0.01)])
      \<or> currentInnerRadius (run (fresh default_config) [Ignite, Update (Fin 0.01), Update (Fin 0.01)])
          \<le> outerRadius (grainConfig default_config))"
proof -
  have a: "coreRadius (grainConfig default_config) \<le> outerRadius (grainConfig default_config)"
    by (simp add: default_config_def Fin_le)
  have b: "list_all valid_call [Ignite, Update (Fin 0.01), Update (Fin 0.01)]"
    by (simp add: less_jsnum_def)
  show ?thesis using a b inner_radius_bounds[OF a b] by blast
qed

text \<open>
  The upper bound of the specification fails: with the default configuration, \<open>ignite()\<close> and
  one \<open>update(10)\<close> leave \<open>currentInnerRadius\<close> above \<open>outerRadius\<close> (the state is then
  burned out).
\<close>

theorem inner_radius_overshoot:
  "Fin 0 < Fin 10 \<and> isFinite (Fin 10)
   \<and> coreRadius (grainConfig (config (MotorSimulation no_args)))
       \<le> outerRadius (grainConfig (config (MotorSimulation no_args)))
   \<and> \<not> currentInnerRadius (run (MotorSimulation no_args) [Ignite, Update (Fin 10)])
        \<le> outerRadius (grainConfig (config (MotorSimulation no_args)))"
proof -
  obtain x where "currentInnerRadius (run (MotorSimulation no_args) [Ignite, Update (Fin 10)]) = Fin x"
    "0.0285 < x"
    using overshoot by blast
  then show ?thesis
    by (simp add: MotorSimulation_def no_args_def fresh_def default_config_def js_arith)
qed

text \<open>
  C3. In an \<open>update(dt)\<close> taken while burning, if after the regression the remaining web
  is \<open>\<le> 1 mm\<close> or the inner radius is \<open>\<ge> 0.98 * outerRadius\<close>, the step ends in the
  burnout branch: the state is burned out and no longer burning, thrust and burn rate
  are 0, the chamber pressure is 101325 Pa, \<open>burnTime\<close> is the advanced time, and
  stress, safety factor, impulse, maximum thrust, the explosion flags and the history
  are those of the state before the call.
\<close>

theorem burnout_step:
  assumes "isBurning s" "\<not> isBurnedOut s" "\<not> hasExploded s"
    and "s' = update_regress s dt (calculateThroatArea (throatDiameter (nozzle (config s))))"
    and "outerRadius (grainConfig (config s)) - currentInnerRadius s' \<le> Fin 0.001
         \<or> currentInnerRadius s' \<ge> outerRadius (grainConfig (config s)) * Fin 0.98"
  shows "update s dt = update_burnout s'
    \<and> isBurnedOut (update s dt) \<and> \<not> isBurning (update s dt)
    \<and> thrust (update s dt) = Fin 0 \<and> burnRate (update s dt) = Fin 0
    \<and> burnRateMmS (update s dt) = Fin 0
    \<and> chamberPressure (update s dt) = Fin 101325
    \<and> time (update s dt) = time s + dt
    \<and> burnTime (update s dt) = time s + dt
    \<and> stress (update s dt) = stress s
    \<and> safetyFactor (update s dt) = safetyFactor s
    \<and> totalImpulse (update s dt) = totalImpulse s
    \<and> maxThrust (update s dt) = maxThrust s
    \<and> hasExploded (update s dt) = hasExploded s
    \<and> explosionTime (update s dt) = explosionTime s
    \<and> history (update s dt) = history s"
proof -
  have "burnout_reached s'"
    using assms(4,5) by (simp add: burnout_reached_def Let_def regress_frame)
  then have "update s dt = update_burnout s'"
    using assms(1-4) by (simp add: update_def Let_def)
  then show ?thesis
    using assms(4) by (simp add: update_burnout_def regress_frame ATMOSPHERIC_PRESSURE_def)
qed

theorem burnout_step_witness:
  "isBurning near_burnout \<and> \<not> isBurnedOut near_burnout \<and> \<not> hasExploded near_burnout
   \<and> outerRadius (grainConfig (config near_burnout))
        - currentInnerRadius (update_regress near_burnout (Fin 0.01)
            (calculateThroatArea (throatDiameter (nozzle (config near_burnout)))))
      \<le> Fin 0.001
   \<and> isBurnedOut (update near_burnout (Fin 0.01))
   \<and> \<not> isBurning (update near_burnout (Fin 0.01))
   \<and> thrust (update near_burnout (Fin 0.01)) = Fin 0
   \<and> burnRate (update near_burnout (Fin 0.01)) = Fin 0
   \<and> chamberPressure (update near_burnout (Fin 0.01)) = Fin 101325
   \<and> time (update near_burnout (Fin 0.01)) = Fin 0.01
   \<and> burnTime (update near_burnout (Fin 0.01)) = Fin 0.01
   \<and> stress (update near_burnout (Fin 0.01)) = Fin 0
   \<and> safetyFactor (update near_burnout (Fin 0.01)) = Fin 99
   \<and> totalImpulse (update near_burnout (Fin 0.01)) = Fin 0
   \<and> h_time (history (update near_burnout (Fin 0.01))) = []"
proof -
  define A where "A = calculateThroatArea (throatDiameter (nozzle (config near_burnout)))"
  define s' where "s' = update_regress near_burnout (Fin 0.01) A"
  have f: "isBurning near_burnout" "\<not> isBurnedOut near_burnout" "\<not> hasExploded near_burnout"
    and v: "config near_burnout = default_config" "currentInnerRadius near_burnout = Fin 0.028"
      "time near_burnout = Fin 0" "stress near_burnout = Fin 0" "safetyFactor near_burnout = Fin 99"
      "totalImpulse near_burnout = Fin 0" "h_time (history near_burnout) = []"
    by (simp_all add: near_burnout_def ignite_def MotorSimulation_def no_args_def fresh_def)
  obtain r where r: "calculateBurnRate
         (calculateChamberPressure
            (calculateBurningArea (grainConfig (config near_burnout)) (currentInnerRadius near_burnout)) A
            (propellant (config near_burnout)))
         (propellant (config near_burnout)) = Fin r" "0 \<le> r"
    using burn_rate_range by blast
  have "currentInnerRadius s' = Fin 0.028 + Fin (r * 0.01)"
    using r v(2) by (simp add: s'_def regress_radius mul_nonneg_pos)
  then have web: "outerRadius (grainConfig (config near_burnout)) - currentInnerRadius s' \<le> Fin 0.001"
    using r(2) v(1) by (auto simp add: default_config_def js_arith)
  note c = burnout_step[OF f s'_def[unfolded A_def] disjI1[OF web], THEN conjunct2]
  show ?thesis using f web v c by (simp add: s'_def A_def js_arith)
qed

text \<open>
  C4, as amended. For a propellant with burn-rate exponent \<open>n > 0\<close>, \<open>calculateBurnRate\<close>
  is non-decreasing over pressures \<open>p1 \<le> p2\<close> whenever the intermediate
  \<^verbatim>\<open>rate_m_s\<close> at \<open>p2\<close> is finite; for every pressure and propellant the result is a
  finite number in \<open>[0, 0.030]\<close>; and a non-finite intermediate \<^verbatim>\<open>rate_m_s\<close> gives 0.
  Where the intermediate rate at \<open>p2\<close> is not finite (at the pressure \<open>+Infinity\<close>, or
  where the power overflows in the source) the result is 0, which may lie below the
  rate at a smaller pressure.
\<close>

theorem burn_rate_monotone_bounded:
  "(Fin 0 < burnRateExponent p \<and> p1 \<le> p2 \<and> isFinite (rate_m_s p2 p) \<longrightarrow>
      calculateBurnRate p1 p \<le> calculateBurnRate p2 p)
   \<and> isFinite (calculateBurnRate pressure p)
   \<and> Fin 0 \<le> calculateBurnRate pressure p
   \<and> calculateBurnRate pressure p \<le> Fin 0.030
   \<and> (\<not> isFinite (rate_m_s pressure p) \<longrightarrow> calculateBurnRate pressure p = Fin 0)"
proof -
  obtain r where "calculateBurnRate pressure p = Fin r" "0 \<le> r" "r \<le> 0.030"
    using burn_rate_range by blast
  then have "isFinite (calculateBurnRate pressure p)
      \<and> Fin 0 \<le> calculateBurnRate pressure p
      \<and> calculateBurnRate pressure p \<le> Fin 0.030"
    by (simp add: Fin_le)
  moreover have "\<not> isFinite (rate_m_s pressure p) \<longrightarrow> calculateBurnRate pressure p = Fin 0"
    by (simp add: burn_rate_unfold clamp_rate_def)
  moreover have "Fin 0 < burnRateExponent p \<and> p1 \<le> p2 \<and> isFinite (rate_m_s p2 p) \<longrightarrow>
      p2 \<noteq> PosInf"
    using rate_at_infinity_not_finite by blast
  ultimately show ?thesis using burn_rate_mono by blast
qed

theorem burn_rate_monotone_bounded_witness:
  "Fin 0 < burnRateExponent KNSB \<and> Fin 1000000 \<le> Fin 2000000
   \<and> isFinite (rate_m_s (Fin 2000000) KNSB)
   \<and> calculateBurnRate (Fin 1000000) KNSB \<le> calculateBurnRate (Fin 2000000) KNSB
   \<and> isFinite (calculateBurnRate PosInf KNSB)
   \<and> Fin 0 \<le> calculateBurnRate PosInf KNSB
   \<and> calculateBurnRate PosInf KNSB \<le> Fin 0.030
   \<and> \<not> isFinite (rate_m_s PosInf KNSB)
   \<and> calculateBurnRate PosInf KNSB = Fin 0"
proof -
  have a: "Fin 0 < burnRateExponent KNSB" by (simp add: KNSB_def less_jsnum_def)
  have b: "Fin 1000000 \<le> Fin 2000000" by (simp add: Fin_le)
  have c: "\<not> isFinite (rate_m_s PosInf KNSB)"
    using a by (rule rate_at_infinity_not_finite)
  have d: "isFinite (rate_m_s (Fin 2000000) KNSB)"
    by (simp add: KNSB_rate_m_s)
  show ?thesis
    using a b c d burn_rate_monotone_bounded[of KNSB "Fin 1000000" "Fin 2000000" PosInf]
    by (simp add: Fin_le)
qed

text \<open>
  The monotonicity of the specification fails at the pressure \<open>+Infinity\<close>: for KNSB the rate
  at 1 MPa is positive and the rate at \<open>+Infinity\<close> is 0.
\<close>

theorem burn_rate_drops_at_infinity:
  "Fin 0 < burnRateExponent KNSB \<and> Fin 1000000 \<le> PosInf
   \<and> calculateBurnRate PosInf KNSB = Fin 0
   \<and> \<not> calculateBurnRate (Fin 1000000) KNSB \<le> calculateBurnRate PosInf KNSB"
proof -
  obtain r where "calculateBurnRate (Fin 1000000) KNSB = Fin r" "0 < r"
    using KNSB_rate_pos[of 1000000] by auto
  moreover have "Fin 0 < burnRateExponent KNSB" by (simp add: KNSB_def less_jsnum_def)
  ultimately show ?thesis by (simp add: KNSB_rate_at_infinity less_eq_jsnum_def)
qed

section \<open>The history\<close>

lemma spaced_snoc: "spaced (xs @ [t]) = (spaced xs \<and> (xs = [] \<or> t - last xs \<ge> Fin 0.01))"
  by (induction xs rule: spaced.induct) auto

lemma spaced_finish:
  "spaced (h_time (history s)) \<Longrightarrow> spaced (h_time (history (update_finish s dt A E)))"
  by (simp add: finish_history spaced_snoc)

lemma spaced_update: "spaced (h_time (history s)) \<Longrightarrow> spaced (h_time (history (update s dt)))"
  by (simp add: update_def Let_def update_burnout_def regress_frame spaced_finish)

lemma spaced_call: "spaced (h_time (history s)) \<Longrightarrow> spaced (h_time (history (do_call s c)))"
  by (cases c) (auto simp add: spaced_update ignite_def reset_def fresh_def)

lemma spaced_run: "spaced (h_time (history s)) \<Longrightarrow> spaced (h_time (history (run s cs)))"
  by (induction cs arbitrary: s) (simp_all add: spaced_call)

text \<open>
  C5. After any sequence of calls, with any time steps at all (positive steps below
  10 ms among them), every entry of \<^verbatim>\<open>history.time\<close> is at least 0.01 s after the
  entry before it.
\<close>

theorem history_spacing: "spaced (h_time (history (run (fresh c) cs)))"
  by (rule spaced_run) (simp add: fresh_def)

theorem history_spacing_witness:
  "spaced (h_time (history (run (fresh default_config)
     [Ignite, Update (Fin 0.004), Update (Fin 0.004), Update (Fin 0.004), Update (Fin 0.004)])))"
  by (rule history_spacing)

section \<open>The safety factor\<close>




section \<open>The lifecycle\<close>

lemma update_not_burning: "lifecyclePhase s \<noteq> Burning \<Longrightarrow> update s dt = s"
  by (auto simp add: lifecyclePhase_def update_def split: if_splits)

lemma terminal_call: "isBurnedOut s \<or> hasExploded s \<Longrightarrow> c \<noteq> Reset \<Longrightarrow> do_call s c = s"
  by (cases c) (auto simp add: update_def ignite_def)

lemma terminal_run: "isBurnedOut s \<or> hasExploded s \<Longrightarrow> Reset \<notin> set cs \<Longrightarrow> run s cs = s"
proof (induction cs)
  case Nil
  then show ?case by simp
next
  case (Cons c cs)
  then have "do_call s c = s" by (intro terminal_call) auto
  with Cons show ?case by simp
qed

text \<open>
  C7. In every phase but \<open>Burning\<close>, \<open>update(dt)\<close> leaves the whole state as it is; the
  state after \<open>reset()\<close> is \<open>Idle\<close> and an \<open>update(dt)\<close> on it leaves \<open>time\<close> at 0; and in
  the phases \<open>BurnedOut\<close> and \<open>Exploded\<close>, \<open>ignite()\<close> changes nothing and does not lead to
  \<open>Burning\<close>, so that no sequence of \<open>ignite()\<close> and \<open>update(dt)\<close> calls changes the
  state.
\<close>

theorem only_burning_advances:
  "(lifecyclePhase s \<noteq> Burning \<longrightarrow> update s dt = s)
   \<and> lifecyclePhase (fresh c) = Idle \<and> time (update (fresh c) dt) = Fin 0
   \<and> (lifecyclePhase s = BurnedOut \<or> lifecyclePhase s = Exploded \<longrightarrow>
        ignite s = s \<and> lifecyclePhase (ignite s) \<noteq> Burning
        \<and> (Reset \<notin> set cs \<longrightarrow> run s cs = s))"
proof -
  have a: "lifecyclePhase (fresh c) = Idle"
    by (simp add: lifecyclePhase_def fresh_def)
  have b: "time (update (fresh c) dt) = Fin 0"
    using update_not_burning[of "fresh c" dt] a by (simp add: fresh_def)
  have c: "ignite s = s \<and> lifecyclePhase (ignite s) \<noteq> Burning \<and> (Reset \<notin> set cs \<longrightarrow> run s cs = s)"
    if "lifecyclePhase s = BurnedOut \<or> lifecyclePhase s = Exploded"
  proof -
    from that have t: "isBurnedOut s \<or> hasExploded s"
      by (auto simp add: lifecyclePhase_def split: if_splits)
    then have "ignite s = s" by (auto simp add: ignite_def)
    with that t show ?thesis using terminal_run[of s cs] by auto
  qed
  show ?thesis using update_not_burning a b c by blast
qed

theorem only_burning_advances_witness:
  "lifecyclePhase burned_out = BurnedOut
   \<and> update burned_out (Fin 0.01) = burned_out
   \<and> ignite burned_out = burned_out
   \<and> run burned_out [Ignite, Update (Fin 0.01), Ignite, Update (Fin 0.02)] = burned_out
   \<and> lifecyclePhase (fresh default_config) = Idle
   \<and> update (fresh default_config) (Fin 0.01) = fresh default_config
   \<and> time (update (fresh default_config) (Fin 0.01)) = Fin 0"
proof -
  have p: "lifecyclePhase burned_out = BurnedOut"
    by (simp add: lifecyclePhase_def burned_out_def update_burnout_def ignite_def
        MotorSimulation_def fresh_def)
  have 1: "update burned_out (Fin 0.01) = burned_out \<and> ignite burned_out = burned_out
      \<and> run burned_out [Ignite, Update (Fin 0.01), Ignite, Update (Fin 0.02)] = burned_out"
    using p
      only_burning_advances[of burned_out "Fin 0.01" default_config
        "[Ignite, Update (Fin 0.01), Ignite, Update (Fin 0.02)]"]
    by (simp del: run.simps)
  have 2: "lifecyclePhase (fresh default_config) = Idle
      \<and> update (fresh default_config) (Fin 0.01) = fresh default_config
      \<and> time (update (fresh default_config) (Fin 0.01)) = Fin 0"
    using only_burning_advances[of "fresh default_config" "Fin 0.01" default_config "[]"]
    by auto
  show ?thesis using p 1 2 by blast
qed

section \<open>Configuration updates and the burn progress\<close>

text \<open>
  C8. \<^verbatim>\<open>updateConfig({ grainConfig: { segments: 6 } })\<close> sets \<open>grainConfig.segments\<close> to
  6 and changes nothing else: not the propellant, material, nozzle or casing, not
  another field of \<open>grainConfig\<close>, not a field of the simulation state.
\<close>

theorem updateConfig_segments_only:
  "updateConfig s (no_keys\<lparr>new_grainConfig := Some (no_grain_keys\<lparr>part_segments := Some (Fin 6)\<rparr>)\<rparr>)
     = s\<lparr>config := (config s)\<lparr>grainConfig := (grainConfig (config s))\<lparr>segments := Fin 6\<rparr>\<rparr>\<rparr>"
  by (cases "grainConfig (config s)")
     (simp add: updateConfig_def no_keys_def no_grain_keys_def spread_grainConfig_def spread_def
        Let_def)

theorem updateConfig_segments_only_witness:
  "updateConfig (MotorSimulation no_args)
     (no_keys\<lparr>new_grainConfig := Some (no_grain_keys\<lparr>part_segments := Some (Fin 6)\<rparr>)\<rparr>)
   = (MotorSimulation no_args)\<lparr>config := default_config\<lparr>grainConfig :=
        \<lparr> grainType = BATES, outerRadius = Fin 0.0285, coreRadius = Fin 0.0095,
          grainLength = Fin 0.065, segments = Fin 6, starPoints = Fin 5,
          starInnerRadius = Fin 0.006 \<rparr>\<rparr>\<rparr>"
  using updateConfig_segments_only[of "MotorSimulation no_args"]
  by (simp add: MotorSimulation_def no_args_def fresh_def default_config_def)

text \<open>
  C9, as amended. The burn progress of \<open>getState\<close> is the ratio
  \<open>(currentInnerRadius - coreRadius) / (outerRadius - coreRadius)\<close> clamped to \<open>[0, 1]\<close>:
  0 when the ratio is NaN or \<open>-Infinity\<close>, and 1 when the ratio is \<open>+Infinity\<close> (only NaN
  is mapped to 0 by the guard; the clamp has already turned \<open>+Infinity\<close> into 1).
\<close>

theorem burn_progress_cases:
  "grainBurnProgress (getState s) =
     (if isNaN (burn_ratio s) then Fin 0
      else if burn_ratio s = PosInf then Fin 1
      else if burn_ratio s = NegInf then Fin 0
      else Fin (max 0 (min (val (burn_ratio s)) 1)))"
  unfolding getState_def Let_def burn_ratio_def[symmetric]
  by (cases "burn_ratio s") (simp_all add: clamp01)

theorem burn_progress_cases_witness:
  "burn_ratio ((MotorSimulation no_args)\<lparr>currentInnerRadius := Fin 0.019\<rparr>) = Fin 0.5
   \<and> grainBurnProgress (getState ((MotorSimulation no_args)\<lparr>currentInnerRadius := Fin 0.019\<rparr>))
      = Fin 0.5"
proof -
  have r: "burn_ratio ((MotorSimulation no_args)\<lparr>currentInnerRadius := Fin 0.019\<rparr>) = Fin 0.5"
    by (simp add: burn_ratio_def MotorSimulation_def no_args_def fresh_def default_config_def
        js_arith)
  show ?thesis
    using r burn_progress_cases[of "(MotorSimulation no_args)\<lparr>currentInnerRadius := Fin 0.019\<rparr>"]
    by simp
qed

text \<open>
  The specification's statement fails when the ratio is \<open>+Infinity\<close>: after
  \<^verbatim>\<open>updateConfig({ grainConfig: { coreRadius: 0.005 } })\<close> and
  \<^verbatim>\<open>updateConfig({ grainConfig: { outerRadius: 0.005 } })\<close> on a new simulation, the
  web thickness is 0, the inner radius is still 0.0095, and the burn progress is 1.
\<close>

theorem burn_progress_at_infinite_ratio:
  "burn_ratio (updateConfig (updateConfig (MotorSimulation no_args)
       (no_keys\<lparr>new_grainConfig := Some (no_grain_keys\<lparr>part_coreRadius := Some (Fin 0.005)\<rparr>)\<rparr>))
       (no_keys\<lparr>new_grainConfig := Some (no_grain_keys\<lparr>part_outerRadius := Some (Fin 0.005)\<rparr>)\<rparr>))
     = PosInf
   \<and> \<not> isFinite PosInf
   \<and> grainBurnProgress (getState (updateConfig (updateConfig (MotorSimulation no_args)
       (no_keys\<lparr>new_grainConfig := Some (no_grain_keys\<lparr>part_coreRadius := Some (Fin 0.005)\<rparr>)\<rparr>))
       (no_keys\<lparr>new_grainConfig := Some (no_grain_keys\<lparr>part_outerRadius := Some (Fin 0.005)\<rparr>)\<rparr>)))
     = Fin 1"
  by (simp add: burn_ratio_def getState_def updateConfig_def MotorSimulation_def no_args_def
      no_keys_def no_grain_keys_def fresh_def default_config_def spread_grainConfig_def
      spread_def js_arith Math_max_def Math_min_def Let_def)

section \<open>Thrust at or below atmospheric pressure\<close>

text \<open>
  C10. For every \<open>gamma\<close>, exit area and throat area, a chamber pressure \<open>\<le> 101325\<close> Pa
  (equal to it included) makes \<open>calculateThrustCoefficient\<close> return 0, which is below the
  lower end 1.0 of the clamp range, and makes \<open>calculateThrust\<close> return 0.
\<close>

theorem no_thrust_at_atmospheric:
  "chamberPressure' \<le> Fin 101325 \<Longrightarrow>
     calculateThrustCoefficient gamma' exitArea throatArea chamberPressure' = Fin 0
     \<and> \<not> Fin 1.0 \<le> calculateThrustCoefficient gamma' exitArea throatArea chamberPressure'
     \<and> calculateThrust chamberPressure' throatArea exitArea p = Fin 0"
  by (simp add: calculateThrustCoefficient_def calculateThrust_def ATMOSPHERIC_PRESSURE_def
      less_eq_jsnum_def)

theorem no_thrust_at_atmospheric_witness:
  "Fin 101325 \<le> Fin 101325
   \<and> calculateThrustCoefficient (Fin 1.133) (Fin 0.00025) (Fin 0.00006) (Fin 101325) = Fin 0
   \<and> \<not> Fin 1.0 \<le> calculateThrustCoefficient (Fin 1.133) (Fin 0.00025) (Fin 0.00006) (Fin 101325)
   \<and> calculateThrust (Fin 101325) (Fin 0.00006) (Fin 0.00025) KNSB = Fin 0"
  using no_thrust_at_atmospheric[of "Fin 101325" "Fin 1.133" "Fin 0.00025" "Fin 0.00006" KNSB]
  by (simp add: less_eq_jsnum_def)

end
